(* ===== verification/Prelude.thy ===== *)
theory Prelude
  imports Main "HOL-Library.AList" "HOL-Library.Multiset"
begin

text \<open>
  Shared vocabulary of the development: association lists stand for the own
  properties of JavaScript objects (key order is insertion order, as in the
  language), and the lemmas below are the facts about them that the component
  theories use through the collection \<open>alist_facts\<close>.
\<close>

named_theorems alist_facts "facts on association lists used as JavaScript objects"
named_theorems handler_simps "unfolding rules of the adapter's handlers"

type_synonym ('k, 'v) assoc = "('k \<times> 'v) list"

abbreviation keys_of :: "('k, 'v) assoc \<Rightarrow> 'k list" where
  "keys_of ps \<equiv> map fst ps"

lemma map_of_update_same [alist_facts]: "map_of (AList.update k v ps) k = Some v"
  by (simp add: update_conv')

lemma map_of_update_other [alist_facts]:
  "k' \<noteq> k \<Longrightarrow> map_of (AList.update k v ps) k' = map_of ps k'"
  by (simp add: update_conv')

lemma keys_update_set [alist_facts]:
  "set (keys_of (AList.update k v ps)) = insert k (set (keys_of ps))"
  by (induction ps) auto

lemma distinct_keys_update [alist_facts]:
  "distinct (keys_of ps) \<Longrightarrow> distinct (keys_of (AList.update k v ps))"
  by (simp add: distinct_update)

lemma update_fresh_append [alist_facts]:
  "k \<notin> set (keys_of ps) \<Longrightarrow> AList.update k v ps = ps @ [(k, v)]"
  by (induction ps) auto

lemma map_of_None_iff [alist_facts]: "(map_of ps k = None) = (k \<notin> set (keys_of ps))"
  by (induction ps) auto

end
