(* ===== verification/JS_Values.thy ===== *)
theory JS_Values
  imports Prelude
begin

text \<open>
  The fragment of JavaScript semantics that the adapter
  (src/packages/analytics-plugin-countly/src/node.js) relies on: values, the
  conversions ToBoolean (\<open>if (x)\<close>, \<open>!x\<close>, \<open>x || y\<close>) and ToPropertyKey
  (\<open>o[k]\<close> with a non-string \<open>k\<close>), property reads with the prototype chain of
  plain objects and arrays, property writes on ordinary objects, the order in
  which \<open>for (k in o)\<close> enumerates keys, and exceptions as the left summand of
  a state-passing result type.
  JavaScript numbers are modelled by their integral values (\<open>JNum\<close>) and NaN;
  the adapter never does arithmetic, so a non-integral number behaves exactly
  like a non-zero integer here (truthy, passed through unchanged).
\<close>

section \<open>Values and errors\<close>

datatype jsval =
    JUndef
  | JNull
  | JBool bool
  | JNum int
  | JNaN
  | JStr string
  | JArr "jsval list"
  | JObj "(string \<times> jsval) list"
  | JFun string

datatype js_error =
    Error string
  | TypeError
  | ReferenceError string
  | Upstream string

section \<open>Conversions\<close>

fun truthy :: "jsval \<Rightarrow> bool" where
  "truthy JUndef = False"
| "truthy JNull = False"
| "truthy (JBool b) = b"
| "truthy (JNum n) = (n \<noteq> 0)"
| "truthy JNaN = False"
| "truthy (JStr s) = (s \<noteq> [])"
| "truthy (JArr _) = True"
| "truthy (JObj _) = True"
| "truthy (JFun _) = True"

text \<open>\<open>a || b\<close>: the first operand when it is truthy, the second otherwise.\<close>

definition js_or :: "jsval \<Rightarrow> jsval \<Rightarrow> jsval" where
  "js_or a b = (if truthy a then a else b)"

text \<open>\<open>typeof v === "string"\<close>.\<close>

fun is_string :: "jsval \<Rightarrow> bool" where
  "is_string (JStr _) = True"
| "is_string _ = False"

text \<open>
  Destructuring \<open>const {a, b} = v\<close> first performs RequireObjectCoercible:
  \<open>undefined\<close> and \<open>null\<close> raise a TypeError, every other value is read
  through its object wrapper.
\<close>

definition require_coercible :: "jsval \<Rightarrow> js_error + jsval" where
  "require_coercible v = (if v = JUndef \<or> v = JNull then Inl TypeError else Inr v)"

section \<open>Numbers as strings and array indices\<close>

definition decimal_digits :: string where
  "decimal_digits = ''0123456789''"

definition digit_char :: "nat \<Rightarrow> char" where
  "digit_char d = decimal_digits ! d"

fun string_of_nat :: "nat \<Rightarrow> string" where
  "string_of_nat n =
     (if n < 10 then [digit_char n] else string_of_nat (n div 10) @ [digit_char (n mod 10)])"

declare string_of_nat.simps [simp del]

definition string_of_int :: "int \<Rightarrow> string" where
  "string_of_int i = (if i < 0 then CHR ''-'' # string_of_nat (nat (- i)) else string_of_nat (nat i))"

definition digits_value :: "string \<Rightarrow> nat" where
  "digits_value s = foldl (\<lambda>n c. 10 * n + (of_char c - 48)) 0 s"

text \<open>
  A property key is an array index when it is the canonical decimal string of
  a number below \<open>2^32 - 1\<close> (ECMA-262: \<open>ToString(ToUint32(P)) = P\<close> and
  \<open>ToUint32(P) \<noteq> 2^32 - 1\<close>).
\<close>

definition index_of_key :: "string \<Rightarrow> nat option" where
  "index_of_key k =
     (let n = digits_value k in
      if string_of_nat n = k \<and> n < 4294967295 then Some n else None)"

fun join_with :: "string \<Rightarrow> string list \<Rightarrow> string" where
  "join_with sep [] = []"
| "join_with sep [x] = x"
| "join_with sep (x # y # xs) = x @ sep @ join_with sep (y # xs)"

text \<open>
  ToString, as used by ToPropertyKey: arrays join their elements with commas
  (\<open>undefined\<close> and \<open>null\<close> elements give the empty string), plain objects
  print as \<open>[object Object]\<close>, and built-in functions print in the format of
  V8 (Node.js), \<open>function push() { [native code] }\<close>.
\<close>

fun js_to_string :: "jsval \<Rightarrow> string" where
  "js_to_string JUndef = ''undefined''"
| "js_to_string JNull = ''null''"
| "js_to_string (JBool b) = (if b then ''true'' else ''false'')"
| "js_to_string (JNum n) = string_of_int n"
| "js_to_string JNaN = ''NaN''"
| "js_to_string (JStr s) = s"
| "js_to_string (JArr xs) =
     join_with '','' (map (\<lambda>x. case x of JUndef \<Rightarrow> [] | JNull \<Rightarrow> [] | _ \<Rightarrow> js_to_string x) xs)"
| "js_to_string (JObj _) = ''[object Object]''"
| "js_to_string (JFun n) = ''function '' @ n @ ''() { [native code] }''"

section \<open>Property reads\<close>

text \<open>
  The string-keyed members of \<open>Object.prototype\<close> and \<open>Array.prototype\<close>
  in Node.js 20 (ECMAScript 2023). Every one of them is a built-in function
  except \<open>__proto__\<close>, an accessor that returns the receiver's prototype.
\<close>

definition object_proto_methods :: "string list" where
  "object_proto_methods =
     [''__defineGetter__'', ''__defineSetter__'', ''hasOwnProperty'', ''__lookupGetter__'',
      ''__lookupSetter__'', ''isPrototypeOf'', ''propertyIsEnumerable'', ''toString'',
      ''valueOf'', ''toLocaleString'']"

definition array_proto_methods :: "string list" where
  "array_proto_methods =
     [''at'', ''concat'', ''copyWithin'', ''fill'', ''find'', ''findIndex'', ''findLast'',
      ''findLastIndex'', ''lastIndexOf'', ''pop'', ''push'', ''reverse'', ''shift'',
      ''unshift'', ''slice'', ''sort'', ''splice'', ''includes'', ''indexOf'', ''join'',
      ''keys'', ''entries'', ''values'', ''forEach'', ''filter'', ''flat'', ''flatMap'',
      ''map'', ''every'', ''some'', ''reduce'', ''reduceRight'', ''toLocaleString'',
      ''toString'', ''toReversed'', ''toSorted'', ''toSpliced'', ''with'']"

text \<open>
  What a plain object (prototype \<open>Object.prototype\<close>, itself an empty plain
  object) and an array (prototype \<open>Array.prototype\<close>, an empty array) inherit.
\<close>

definition inherited_object :: "string \<Rightarrow> jsval" where
  "inherited_object k =
     (if k = ''__proto__'' then JObj []
      else if k = ''constructor'' then JFun ''Object''
      else if k \<in> set object_proto_methods then JFun k
      else JUndef)"

definition inherited_array :: "string \<Rightarrow> jsval" where
  "inherited_array k =
     (if k = ''__proto__'' then JArr []
      else if k = ''constructor'' then JFun ''Array''
      else if k \<in> set array_proto_methods \<or> k \<in> set object_proto_methods then JFun k
      else JUndef)"

text \<open>
  \<open>v[k]\<close> and \<open>v.k\<close> on a value that passed RequireObjectCoercible. Objects
  and arrays are read with their own properties first and then along their
  prototype chain; strings have their \<open>length\<close> and indexed characters;
  functions their \<open>name\<close>. Members of \<open>String.prototype\<close>,
  \<open>Number.prototype\<close>, \<open>Boolean.prototype\<close> and \<open>Function.prototype\<close> are
  not listed: none of the names the adapter reads is one of them.
\<close>

fun get_prop :: "jsval \<Rightarrow> string \<Rightarrow> jsval" where
  "get_prop (JObj ps) k = (case map_of ps k of Some v \<Rightarrow> v | None \<Rightarrow> inherited_object k)"
| "get_prop (JArr xs) k =
     (if k = ''length'' then JNum (int (length xs))
      else case index_of_key k of
        Some i \<Rightarrow> (if i < length xs then xs ! i else JUndef)
      | None \<Rightarrow> inherited_array k)"
| "get_prop (JStr s) k =
     (if k = ''length'' then JNum (int (length s))
      else case index_of_key k of
        Some i \<Rightarrow> (if i < length s then JStr [s ! i] else JUndef)
      | None \<Rightarrow> JUndef)"
| "get_prop (JFun n) k = (if k = ''name'' then JStr n else JUndef)"
| "get_prop JUndef k = JUndef"
| "get_prop JNull k = JUndef"
| "get_prop (JBool b) k = JUndef"
| "get_prop (JNum n) k = JUndef"
| "get_prop JNaN k = JUndef"

section \<open>Property writes and key enumeration\<close>

text \<open>
  \<open>o[k] = v\<close> on an ordinary object whose prototype is \<open>Object.prototype\<close>:
  an own property is overwritten in place, a new one is appended (insertion
  order), except that an absent \<open>__proto__\<close> key reaches the inherited
  accessor, which changes the prototype and creates no own property.
\<close>

definition obj_set :: "(string \<times> jsval) list \<Rightarrow> string \<Rightarrow> jsval \<Rightarrow> (string \<times> jsval) list" where
  "obj_set ps k v =
     (if k = ''__proto__'' \<and> k \<notin> set (keys_of ps) then ps else AList.update k v ps)"

text \<open>
  OrdinaryOwnPropertyKeys: array-index keys in ascending numeric order, then
  the other string keys in insertion order. \<open>for (k in o)\<close> on a plain object
  visits exactly these keys (\<open>Object.prototype\<close> has no enumerable members);
  on a string or an array it visits the indices.
\<close>

definition own_keys :: "(string \<times> jsval) list \<Rightarrow> string list" where
  "own_keys ps =
     sort_key (\<lambda>k. the (index_of_key k)) (filter (\<lambda>k. index_of_key k \<noteq> None) (keys_of ps))
     @ filter (\<lambda>k. index_of_key k = None) (keys_of ps)"

fun for_in_keys :: "jsval \<Rightarrow> string list" where
  "for_in_keys (JObj ps) = own_keys ps"
| "for_in_keys (JStr s) = map string_of_nat [0..<length s]"
| "for_in_keys (JArr xs) = map string_of_nat [0..<length xs]"
| "for_in_keys _ = []"

text \<open>
  Objects built by JavaScript never hold two own properties with the same key;
  association lists that represent them keep their keys distinct.
\<close>

fun wf_keys :: "jsval \<Rightarrow> bool" where
  "wf_keys (JObj ps) = distinct (keys_of ps)"
| "wf_keys _ = True"

section \<open>Exceptions and state\<close>

text \<open>
  A statement sequence that may throw, over a state \<open>'s\<close>: the result is the
  thrown error (\<open>Inl\<close>) or the value (\<open>Inr\<close>), together with the state at the
  point where control left; effects before a throw are kept.
\<close>

type_synonym ('s, 'a) exc = "'s \<Rightarrow> (js_error + 'a) \<times> 's"

definition returnE :: "'a \<Rightarrow> ('s, 'a) exc" where
  "returnE a = (\<lambda>s. (Inr a, s))"

definition throwE :: "js_error \<Rightarrow> ('s, 'a) exc" where
  "throwE e = (\<lambda>s. (Inl e, s))"

definition liftE :: "js_error + 'a \<Rightarrow> ('s, 'a) exc" where
  "liftE r = (\<lambda>s. (r, s))"

definition bindE :: "('s, 'a) exc \<Rightarrow> ('a \<Rightarrow> ('s, 'b) exc) \<Rightarrow> ('s, 'b) exc" where
  "bindE m f = (\<lambda>s. case m s of (Inl e, s') \<Rightarrow> (Inl e, s') | (Inr a, s') \<Rightarrow> f a s')"

section \<open>Lemmas\<close>

subsection \<open>The exception monad\<close>

lemma returnE_apply [simp, handler_simps]: "returnE a s = (Inr a, s)"
  by (simp add: returnE_def)

lemma throwE_apply [simp, handler_simps]: "throwE e s = (Inl e, s)"
  by (simp add: throwE_def)

lemma liftE_apply [simp, handler_simps]: "liftE r s = (r, s)"
  by (simp add: liftE_def)

lemma bindE_apply [handler_simps]:
  "bindE m f s = (case m s of (Inl e, s') \<Rightarrow> (Inl e, s') | (Inr a, s') \<Rightarrow> f a s')"
  by (simp add: bindE_def)

lemma bindE_Inl [simp]: "m s = (Inl e, s') \<Longrightarrow> bindE m f s = (Inl e, s')"
  by (simp add: bindE_def)

lemma bindE_Inr [simp]: "m s = (Inr a, s') \<Longrightarrow> bindE m f s = f a s'"
  by (simp add: bindE_def)

lemma bindE_returnE [simp]: "bindE (returnE a) f = f a"
  by (simp add: bindE_def returnE_def)

lemma bindE_liftE_Inl [simp]: "bindE (liftE (Inl e)) f = throwE e"
  by (simp add: bindE_def liftE_def throwE_def)

lemma bindE_liftE_Inr [simp]: "bindE (liftE (Inr a)) f = f a"
  by (simp add: bindE_def liftE_def)

subsection \<open>Destructuring\<close>

lemma require_coercible_Inr [simp]: "v \<noteq> JUndef \<Longrightarrow> v \<noteq> JNull \<Longrightarrow> require_coercible v = Inr v"
  by (simp add: require_coercible_def)

lemma require_coercible_undef [simp]: "require_coercible JUndef = Inl TypeError"
  by (simp add: require_coercible_def)

lemma require_coercible_null [simp]: "require_coercible JNull = Inl TypeError"
  by (simp add: require_coercible_def)

subsection \<open>Decimal strings\<close>

lemma digit_char_of_char: "d < 10 \<Longrightarrow> of_char (digit_char d) = (48 + d :: nat)"
  by (auto simp: digit_char_def decimal_digits_def less_Suc_eq numeral_eq_Suc)

lemma digits_value_snoc: "digits_value (s @ [c]) = 10 * digits_value s + (of_char c - 48)"
  by (simp add: digits_value_def)

lemma digits_value_string_of_nat [simp]: "digits_value (string_of_nat n) = n"
proof (induction n rule: string_of_nat.induct)
  case (1 n)
  show ?case
  proof (cases "n < 10")
    case True
    then show ?thesis
      by (simp add: string_of_nat.simps [of n] digits_value_def digit_char_of_char)
  next
    case False
    with "1.IH" show ?thesis
      by (simp add: string_of_nat.simps [of n] digits_value_snoc digit_char_of_char)
  qed
qed

lemma string_of_nat_nonempty [simp]: "string_of_nat n \<noteq> []"
  by (subst string_of_nat.simps) simp

lemma string_of_nat_inj [simp]: "(string_of_nat m = string_of_nat n) = (m = n)"
  by (metis digits_value_string_of_nat)

lemma index_of_key_iff: "(index_of_key k = Some n) = (k = string_of_nat n \<and> n < 4294967295)"
  by (auto simp: index_of_key_def Let_def)

lemma digit_char_mem: "d < 10 \<Longrightarrow> digit_char d \<in> set decimal_digits"
  by (simp add: digit_char_def decimal_digits_def del: set_simps)

lemma set_string_of_nat: "set (string_of_nat n) \<subseteq> set decimal_digits"
proof (induction n rule: string_of_nat.induct)
  case (1 n)
  show ?case
  proof (cases "n < 10")
    case True
    then show ?thesis by (simp add: string_of_nat.simps [of n] digit_char_mem)
  next
    case False
    with "1.IH" show ?thesis by (simp add: string_of_nat.simps [of n] digit_char_mem)
  qed
qed

lemma index_of_key_nondigit:
  "c \<in> set k \<Longrightarrow> c \<notin> set decimal_digits \<Longrightarrow> index_of_key k = None"
  using set_string_of_nat by (cases "index_of_key k") (auto simp: index_of_key_iff)

subsection \<open>Own keys\<close>

lemma mset_own_keys_raw: "mset (own_keys ps) = mset (keys_of ps)"
proof -
  let ?P = "\<lambda>k. index_of_key k \<noteq> None"
  have "mset (own_keys ps) = {#k \<in># mset (keys_of ps). ?P k#} + {#k \<in># mset (keys_of ps). \<not> ?P k#}"
    by (simp add: own_keys_def)
  also have "\<dots> = mset (keys_of ps)"
    by (rule multiset_partition [symmetric])
  finally show ?thesis .
qed

lemma set_own_keys [simp]: "set (own_keys ps) = set (keys_of ps)"
  by (metis mset_own_keys_raw set_mset_mset)

lemma distinct_own_keys [simp]: "distinct (own_keys ps) = distinct (keys_of ps)"
  by (rule mset_eq_imp_distinct_iff [OF mset_own_keys_raw])

lemma distinct_for_in_keys: "wf_keys v \<Longrightarrow> distinct (for_in_keys v)"
  by (cases v) (simp_all add: distinct_map inj_on_def)

lemma for_in_keys_falsy: "\<not> truthy v \<Longrightarrow> for_in_keys v = []"
  by (cases v) simp_all

subsection \<open>Property writes\<close>

lemma obj_set_same [simp]: "k \<noteq> ''__proto__'' \<Longrightarrow> map_of (obj_set ps k v) k = Some v"
  by (simp add: obj_set_def alist_facts)

lemma obj_set_other [simp]: "k' \<noteq> k \<Longrightarrow> map_of (obj_set ps k v) k' = map_of ps k'"
  by (simp add: obj_set_def alist_facts)

lemma obj_set_proto [simp]: "''__proto__'' \<notin> set (keys_of ps) \<Longrightarrow> obj_set ps ''__proto__'' v = ps"
  by (simp add: obj_set_def)

lemma keys_obj_set: "set (keys_of (obj_set ps k v)) \<subseteq> insert k (set (keys_of ps))"
  unfolding obj_set_def using keys_update_set [of k v ps] by auto

lemma distinct_obj_set [simp]: "distinct (keys_of ps) \<Longrightarrow> distinct (keys_of (obj_set ps k v))"
  by (simp add: obj_set_def alist_facts)

lemma obj_set_fresh: "k \<noteq> ''__proto__'' \<Longrightarrow> k \<notin> set (keys_of ps) \<Longrightarrow> obj_set ps k v = ps @ [(k, v)]"
  by (simp add: obj_set_def alist_facts)

end
