(* ===== verification/Countly_SDK.thy ===== *)
theory Countly_SDK
  imports JS_Values
begin

text \<open>
  The boundary between the adapter and the vendor SDK \<open>countly-sdk-nodejs\<close>.
  The SDK is external: the model records every call the adapter makes on it,
  in order, and lets the SDK's behaviour on a call be any function
  \<open>sdk :: countly_call \<Rightarrow> string option\<close> (\<open>Some msg\<close>: the SDK method throws
  an error with that message, which the adapter does not catch).
  The module-level binding \<open>Countly\<close> (lines 1--4 of node.js) is the
  \<open>countly_bound\<close> flag: it holds the SDK only when \<open>process.browser\<close> was
  falsy at load time; otherwise it stays \<open>undefined\<close> and every
  \<open>Countly.m(...)\<close> raises a TypeError.
\<close>

section \<open>Definitions\<close>

text \<open>One constructor per SDK method the adapter calls, with its argument.\<close>

datatype countly_call =
    Init jsval
  | Track_view jsval
  | Add_event jsval
  | Change_id jsval
  | User_details jsval
  | Track_errors
  | Track_sessions
  | Report_trace jsval

text \<open>
  The runtime state the adapter touches: the \<open>Countly\<close> binding, whether the
  module body runs in strict mode (an ES module always does; a CommonJS build
  without \<open>"use strict"\<close> does not), the global binding \<open>trait\<close> that the
  undeclared loop variable of \<open>identify\<close> resolves to, and the calls made on
  the SDK so far.
\<close>

record rt =
  countly_bound :: bool
  strict_code :: bool
  global_trait :: "jsval option"
  sdk_calls :: "countly_call list"

type_synonym sdk = "countly_call \<Rightarrow> string option"

type_synonym 'a step = "(rt, 'a) exc"

text \<open>
  Loading the module (lines 1--4): reading \<open>process.browser\<close> raises a
  ReferenceError when no global \<open>process\<close> exists (\<open>None\<close>) and a TypeError when
  it is \<open>undefined\<close> or \<open>null\<close>; the SDK is required only when the flag is
  falsy. \<open>trait0\<close> is the global \<open>trait\<close> binding, if any, that other code
  created before.
\<close>

definition load_module :: "jsval option \<Rightarrow> bool \<Rightarrow> jsval option \<Rightarrow> js_error + rt" where
  "load_module process strict trait0 =
     (case process of
        None \<Rightarrow> Inl (ReferenceError ''process is not defined'')
      | Some p \<Rightarrow>
          (case require_coercible p of
             Inl e \<Rightarrow> Inl e
           | Inr p' \<Rightarrow> Inr \<lparr>countly_bound = \<not> truthy (get_prop p' ''browser''),
                            strict_code = strict, global_trait = trait0, sdk_calls = []\<rparr>))"

text \<open>
  \<open>Countly.m(arg)\<close>: a TypeError when \<open>Countly\<close> is undefined; otherwise the
  call is made (and recorded) and the SDK's exception, if any, propagates.
\<close>

definition countly_invoke :: "sdk \<Rightarrow> countly_call \<Rightarrow> unit step" where
  "countly_invoke sdk c st =
     (if \<not> countly_bound st then (Inl TypeError, st)
      else ((case sdk c of None \<Rightarrow> Inr () | Some m \<Rightarrow> Inl (Upstream m)),
            st\<lparr>sdk_calls := sdk_calls st @ [c]\<rparr>))"

text \<open>
  Two states are related by \<open>extends\<close> when the second is reached from the
  first by making further SDK calls and, possibly, assigning the global
  \<open>trait\<close>: the \<open>Countly\<close> binding and the mode never change.
\<close>

definition extends :: "rt \<Rightarrow> rt \<Rightarrow> bool" where
  "extends st st' \<longleftrightarrow>
     countly_bound st' = countly_bound st \<and> strict_code st' = strict_code st \<and>
     (\<exists>cs. sdk_calls st' = sdk_calls st @ cs)"

definition preserves :: "(rt \<Rightarrow> rt \<Rightarrow> bool) \<Rightarrow> 'a step \<Rightarrow> bool" where
  "preserves R m \<longleftrightarrow> (\<forall>st r st'. m st = (r, st') \<longrightarrow> R st st')"

section \<open>Lemmas\<close>

lemma countly_invoke_unbound [simp]:
  "\<not> countly_bound st \<Longrightarrow> countly_invoke sdk c st = (Inl TypeError, st)"
  by (simp add: countly_invoke_def)

lemma countly_invoke_ok [simp]:
  "countly_bound st \<Longrightarrow> sdk c = None \<Longrightarrow>
   countly_invoke sdk c st = (Inr (), st\<lparr>sdk_calls := sdk_calls st @ [c]\<rparr>)"
  by (simp add: countly_invoke_def)

lemma countly_invoke_fail [simp]:
  "countly_bound st \<Longrightarrow> sdk c = Some m \<Longrightarrow>
   countly_invoke sdk c st = (Inl (Upstream m), st\<lparr>sdk_calls := sdk_calls st @ [c]\<rparr>)"
  by (simp add: countly_invoke_def)

lemma countly_invoke_eq_iff:
  assumes "countly_bound st"
  shows "countly_invoke sdk c1 st = countly_invoke sdk c2 st \<longleftrightarrow> c1 = c2"
proof
  assume "countly_invoke sdk c1 st = countly_invoke sdk c2 st"
  then have "sdk_calls (snd (countly_invoke sdk c1 st)) = sdk_calls (snd (countly_invoke sdk c2 st))"
    by simp
  with assms show "c1 = c2" by (simp add: countly_invoke_def)
qed simp

lemma extends_refl [simp, intro]: "extends st st"
  by (simp add: extends_def)

lemma extends_trans [trans]: "extends s1 s2 \<Longrightarrow> extends s2 s3 \<Longrightarrow> extends s1 s3"
  by (auto simp: extends_def)

lemma preserves_returnE [intro]: "reflp R \<Longrightarrow> preserves R (returnE a)"
  by (simp add: preserves_def reflp_def)

lemma preserves_liftE [intro]: "reflp R \<Longrightarrow> preserves R (liftE r)"
  by (simp add: preserves_def reflp_def)

lemma preserves_throwE [intro]: "reflp R \<Longrightarrow> preserves R (throwE e)"
  by (simp add: preserves_def reflp_def)

lemma preserves_bindE [intro]:
  assumes "transp R" "preserves R m" "\<And>a. preserves R (f a)"
  shows "preserves R (bindE m f)"
  unfolding preserves_def
proof (intro allI impI)
  fix st r st'
  assume run: "bindE m f st = (r, st')"
  obtain r1 s1 where m: "m st = (r1, s1)" by fastforce
  from assms(2) m have "R st s1" by (simp add: preserves_def)
  show "R st st'"
  proof (cases r1)
    case (Inl e)
    with run m \<open>R st s1\<close> show ?thesis by simp
  next
    case (Inr a)
    with run m have "f a s1 = (r, st')" by simp
    with assms(3) have "R s1 st'" by (simp add: preserves_def)
    with assms(1) \<open>R st s1\<close> show ?thesis by (meson transpD)
  qed
qed

lemma preserves_if [intro]:
  "(b \<Longrightarrow> preserves R m1) \<Longrightarrow> (\<not> b \<Longrightarrow> preserves R m2) \<Longrightarrow> preserves R (if b then m1 else m2)"
  by simp

lemma reflp_extends [simp]: "reflp extends"
  by (simp add: reflp_def)

lemma transp_extends [simp]: "transp extends"
  by (auto simp: transp_def intro: extends_trans)

lemma preserves_countly_invoke [intro]: "preserves extends (countly_invoke sdk c)"
  by (auto simp: preserves_def countly_invoke_def extends_def)

end
