(* ===== verification/Identify.thy ===== *)
theory Identify
  imports Countly_SDK
begin

text \<open>
  The \<open>identify\<close> handler (node.js lines 57--76): an optional identity change,
  the classification loop over the traits, and the final submission of the
  user object. The loop variable \<open>trait\<close> is never declared, so each
  iteration assigns the global binding \<open>trait\<close>: in strict code without such a
  binding this raises a ReferenceError. The allow-list is an array indexed by
  the trait name (\<open>allowedProps[trait]\<close>), so the test succeeds for the names
  that are array indices or members of \<open>Array.prototype\<close>, not for the eight
  field names the list contains.
\<close>

section \<open>Definitions\<close>

text \<open>Line 61.\<close>

definition allowedProps :: "string list" where
  "allowedProps =
     [''name'', ''username'', ''email'', ''organization'', ''phone'', ''picture'', ''gender'', ''byear'']"

text \<open>\<open>allowedProps[trait]\<close> (line 67): a property read on the array.\<close>

definition allowed_lookup :: "string \<Rightarrow> jsval" where
  "allowed_lookup k = get_prop (JArr (map JStr allowedProps)) k"

text \<open>
  \<open>userObject\<close> (line 59): created as \<open>{ custom: {} }\<close>; \<open>uo_fields\<close> are
  the own properties written by line 68, in insertion order, and
  \<open>uo_custom\<close> those of the nested \<open>custom\<close> object written by line 71.
  \<open>user_object_value\<close> is the object handed to the SDK; its \<open>custom\<close> entry
  is never overwritten (lemma \<open>allowed_key_not_custom\<close>), so this pair is
  exactly the JavaScript object.
\<close>

record user_object =
  uo_fields :: "(string \<times> jsval) list"
  uo_custom :: "(string \<times> jsval) list"

definition empty_user_object :: user_object where
  "empty_user_object = \<lparr>uo_fields = [], uo_custom = []\<rparr>"

definition user_object_value :: "user_object \<Rightarrow> jsval" where
  "user_object_value u = JObj ((''custom'', JObj (uo_custom u)) # uo_fields u)"

text \<open>The loop body, lines 67--72.\<close>

definition classify_trait :: "jsval \<Rightarrow> string \<Rightarrow> user_object \<Rightarrow> user_object" where
  "classify_trait traits k u =
     (let v = get_prop traits k; a = allowed_lookup k in
      if truthy a then u\<lparr>uo_fields := obj_set (uo_fields u) (js_to_string a) v\<rparr>
      else u\<lparr>uo_custom := obj_set (uo_custom u) k v\<rparr>)"

text \<open>
  The assignment of the next key to the undeclared \<open>trait\<close> (line 66):
  PutValue on an unresolvable reference throws in strict code and creates a
  global property otherwise.
\<close>

definition assign_trait :: "string \<Rightarrow> unit step" where
  "assign_trait k st =
     (if strict_code st \<and> global_trait st = None
      then (Inl (ReferenceError ''trait is not defined''), st)
      else (Inr (), st\<lparr>global_trait := Some (JStr k)\<rparr>))"

text \<open>\<open>for (trait in traits) { ... }\<close> over the enumerated keys (lines 66--73).\<close>

fun trait_loop :: "jsval \<Rightarrow> string list \<Rightarrow> user_object \<Rightarrow> user_object step" where
  "trait_loop traits [] u = returnE u"
| "trait_loop traits (k # ks) u =
     bindE (assign_trait k) (\<lambda>_. trait_loop traits ks (classify_trait traits k u))"

text \<open>
  What the loop computes, stated without the loop: each trait whose name
  \<open>allowedProps[trait]\<close> finds becomes the property named by the printed
  lookup result, every other trait except \<open>__proto__\<close> becomes an entry of
  \<open>custom\<close>, both in enumeration order.
\<close>

definition classification :: "jsval \<Rightarrow> string list \<Rightarrow> user_object" where
  "classification traits ks =
     \<lparr>uo_fields = map (\<lambda>k. (js_to_string (allowed_lookup k), get_prop traits k))
                    (filter (\<lambda>k. truthy (allowed_lookup k)) ks),
      uo_custom = map (\<lambda>k. (k, get_prop traits k))
                    (filter (\<lambda>k. \<not> truthy (allowed_lookup k) \<and> k \<noteq> ''__proto__'') ks)\<rparr>"

text \<open>The name of the built-in function that \<open>allowedProps[k]\<close> finds along the prototype chain.\<close>

definition native_name :: "string \<Rightarrow> string" where
  "native_name k = (if k = ''constructor'' then ''Array'' else k)"

text \<open>
  Reading a written property name back as the trait that produced it: the
  inverse of \<open>k \<mapsto> String(allowedProps[k])\<close> on the names whose lookup is
  truthy. It shows that no two traits write the same property.
\<close>

fun position :: "string \<Rightarrow> string list \<Rightarrow> nat" where
  "position x [] = 0"
| "position x (y # ys) = (if x = y then 0 else Suc (position x ys))"

definition trait_of_key :: "string \<Rightarrow> string" where
  "trait_of_key s =
     (if s = ''8'' then ''length''
      else if s = [] then ''__proto__''
      else if s \<in> set allowedProps then string_of_nat (position s allowedProps)
      else let n = take (length s - 29) (drop 9 s) in if n = ''Array'' then ''constructor'' else n)"

text \<open>The loop changes nothing but the global \<open>trait\<close> binding.\<close>

definition same_but_trait :: "rt \<Rightarrow> rt \<Rightarrow> bool" where
  "same_but_trait st st' \<longleftrightarrow>
     countly_bound st' = countly_bound st \<and> strict_code st' = strict_code st \<and>
     sdk_calls st' = sdk_calls st"

text \<open>The handler, lines 57--76.\<close>

definition identify :: "sdk \<Rightarrow> jsval \<Rightarrow> unit step" where
  "identify sdk arg =
     bindE (liftE (require_coercible arg)) (\<lambda>a.
     bindE (liftE (require_coercible (get_prop a ''payload''))) (\<lambda>payload.
       let userId = get_prop payload ''userId''; traits = get_prop payload ''traits'' in
       bindE (if is_string userId then countly_invoke sdk (Change_id userId) else returnE ()) (\<lambda>_.
       bindE (if truthy traits then trait_loop traits (for_in_keys traits) empty_user_object
              else returnE empty_user_object) (\<lambda>u.
       countly_invoke sdk (User_details (user_object_value u))))))"

text \<open>
  Where line 68 or line 71 puts the value of trait \<open>k\<close>: the property named by
  the printed lookup result when \<open>allowedProps[k]\<close> is truthy, the entry
  \<open>k\<close> of \<open>custom\<close> otherwise.
\<close>

definition read_back :: "user_object \<Rightarrow> string \<Rightarrow> jsval option" where
  "read_back u k =
     (let a = allowed_lookup k in
      if truthy a then map_of (uo_fields u) (js_to_string a) else map_of (uo_custom u) k)"

section \<open>Lemmas\<close>

subsection \<open>The allow-list lookup\<close>

lemma length_allowedProps: "length allowedProps = 8"
  by (simp add: allowedProps_def)

lemma index_of_key_alpha: "k \<noteq> [] \<Longrightarrow> hd k \<notin> set decimal_digits \<Longrightarrow> index_of_key k = None"
  by (rule index_of_key_nondigit [of "hd k"]) simp_all

lemma allowed_lookup_cases:
  "allowed_lookup k =
     (if k = ''length'' then JNum 8
      else case index_of_key k of
        Some i \<Rightarrow> (if i < 8 then JStr (allowedProps ! i) else JUndef)
      | None \<Rightarrow> inherited_array k)"
  by (simp add: allowed_lookup_def length_allowedProps split: option.split)

lemma allowed_lookup_index: "i < 8 \<Longrightarrow> allowed_lookup (string_of_nat i) = JStr (allowedProps ! i)"
proof -
  assume i: "i < 8"
  then have idx: "index_of_key (string_of_nat i) = Some i" by (simp add: index_of_key_iff)
  have "index_of_key ''length'' = None"
    by (rule index_of_key_alpha) (simp_all add: decimal_digits_def)
  with idx have "string_of_nat i \<noteq> ''length''" by auto
  with idx i show ?thesis by (simp add: allowed_lookup_cases)
qed

lemma allowed_lookup_truthy:
  assumes "truthy (allowed_lookup k)"
  shows "(\<exists>i<8. k = string_of_nat i \<and> allowed_lookup k = JStr (allowedProps ! i))
       \<or> (k = ''length'' \<and> allowed_lookup k = JNum 8)
       \<or> (k \<noteq> ''length'' \<and> index_of_key k = None \<and> allowed_lookup k = inherited_array k
          \<and> inherited_array k \<noteq> JUndef)"
proof (cases "k = ''length''")
  case True
  then show ?thesis by (simp add: allowed_lookup_cases)
next
  case False
  show ?thesis
  proof (cases "index_of_key k")
    case None
    with False have look: "allowed_lookup k = inherited_array k"
      by (simp add: allowed_lookup_cases)
    with assms have "inherited_array k \<noteq> JUndef" by auto
    with False None look show ?thesis by (intro disjI2) simp
  next
    case (Some i)
    with False assms have "i < 8" by (auto simp: allowed_lookup_cases split: if_splits)
    moreover from Some have "k = string_of_nat i" by (simp add: index_of_key_iff)
    ultimately show ?thesis using allowed_lookup_index by (intro disjI1 exI [of _ i]) simp
  qed
qed

lemma allowedProps_keys:
  "\<forall>x \<in> set allowedProps. take 9 x \<noteq> ''function '' \<and> x \<noteq> ''8'' \<and> x \<noteq> [] \<and> x \<noteq> ''custom'' \<and> x \<noteq> ''__proto__''"
  by (simp add: allowedProps_def)

lemma Array_not_method: "''Array'' \<notin> set array_proto_methods \<and> ''Array'' \<notin> set object_proto_methods"
  by (simp add: array_proto_methods_def object_proto_methods_def)

lemma allowed_key_cases:
  assumes "truthy (allowed_lookup k)"
  shows "(\<exists>i<8. k = string_of_nat i \<and> js_to_string (allowed_lookup k) = allowedProps ! i)
       \<or> (k = ''length'' \<and> js_to_string (allowed_lookup k) = ''8'')
       \<or> (k = ''__proto__'' \<and> js_to_string (allowed_lookup k) = [])
       \<or> (k \<noteq> ''__proto__'' \<and> (k = ''constructor'' \<or> k \<in> set array_proto_methods \<or> k \<in> set object_proto_methods)
          \<and> js_to_string (allowed_lookup k) = ''function '' @ native_name k @ ''() { [native code] }'')"
proof -
  have eight: "js_to_string (JNum 8) = ''8''"
    by (simp add: string_of_int_def string_of_nat.simps digit_char_def decimal_digits_def)
  from allowed_lookup_truthy [OF assms] show ?thesis
  proof (elim disjE exE conjE)
    fix i
    assume "i < 8" "k = string_of_nat i" "allowed_lookup k = JStr (allowedProps ! i)"
    then show ?thesis by (intro disjI1 exI [of _ i]) simp
  next
    assume "k = ''length''" "allowed_lookup k = JNum 8"
    with eight show ?thesis by simp
  next
    assume look: "allowed_lookup k = inherited_array k" and def: "inherited_array k \<noteq> JUndef"
    show ?thesis
    proof (cases "k = ''__proto__''")
      case True
      with look show ?thesis by (simp add: inherited_array_def)
    next
      case False
      with look def show ?thesis by (auto simp: inherited_array_def native_name_def split: if_splits)
    qed
  qed
qed

lemma allowedProps_nth_key:
  assumes "i < 8"
  shows "allowedProps ! i \<noteq> ''8''" "allowedProps ! i \<noteq> []"
proof -
  from assms have mem: "allowedProps ! i \<in> set allowedProps" using length_allowedProps by simp
  with allowedProps_keys show "allowedProps ! i \<noteq> ''8''" "allowedProps ! i \<noteq> []" by blast+
qed

lemma position_nth: "distinct xs \<Longrightarrow> i < length xs \<Longrightarrow> position (xs ! i) xs = i"
proof (induction xs arbitrary: i)
  case Nil
  then show ?case by simp
next
  case (Cons y ys)
  then show ?case by (cases i) auto
qed

lemma native_name_Array:
  "k = ''constructor'' \<or> k \<in> set array_proto_methods \<or> k \<in> set object_proto_methods \<Longrightarrow>
   native_name k = (if k = ''constructor'' then ''Array'' else k) \<and> k \<noteq> ''Array''"
  using Array_not_method by (auto simp: native_name_def)

lemma trait_of_key_inverse:
  assumes "truthy (allowed_lookup k)"
  shows "trait_of_key (js_to_string (allowed_lookup k)) = k"
  using allowed_key_cases [OF assms]
proof (elim disjE exE conjE)
  fix i
  assume i: "i < 8" "k = string_of_nat i" "js_to_string (allowed_lookup k) = allowedProps ! i"
  have "distinct allowedProps" by (simp add: allowedProps_def)
  with i have "position (allowedProps ! i) allowedProps = i"
    by (simp add: position_nth length_allowedProps)
  with i show ?thesis
    using allowedProps_nth_key [OF i(1)] length_allowedProps by (simp add: trait_of_key_def)
next
  assume "k = ''length''" "js_to_string (allowed_lookup k) = ''8''"
  then show ?thesis by (simp add: trait_of_key_def)
next
  assume "k = ''__proto__''" "js_to_string (allowed_lookup k) = []"
  then show ?thesis by (simp add: trait_of_key_def)
qed (use native_name_Array in \<open>simp_all add: trait_of_key_def Let_def allowedProps_def\<close>)

lemma allowed_key_inj:
  assumes "truthy (allowed_lookup k1)" "truthy (allowed_lookup k2)"
    and "js_to_string (allowed_lookup k1) = js_to_string (allowed_lookup k2)"
  shows "k1 = k2"
  by (metis assms trait_of_key_inverse)

lemma allowed_key_not_custom:
  assumes "truthy (allowed_lookup k)"
  shows "js_to_string (allowed_lookup k) \<noteq> ''custom''" "js_to_string (allowed_lookup k) \<noteq> ''__proto__''"
proof -
  have "js_to_string (allowed_lookup k) \<notin> {''custom'', ''__proto__''}"
    using allowed_key_cases [OF assms]
  proof (elim disjE exE conjE)
    fix i
    assume "i < 8" "js_to_string (allowed_lookup k) = allowedProps ! i"
    moreover from \<open>i < 8\<close> have "allowedProps ! i \<in> set allowedProps"
      using length_allowedProps by simp
    ultimately show ?thesis using allowedProps_keys by auto
  qed simp_all
  then show "js_to_string (allowed_lookup k) \<noteq> ''custom''" "js_to_string (allowed_lookup k) \<noteq> ''__proto__''"
    by simp_all
qed

subsection \<open>The classification loop\<close>

lemma assign_trait_ok:
  "\<not> (strict_code st \<and> global_trait st = None) \<Longrightarrow>
   assign_trait k st = (Inr (), st\<lparr>global_trait := Some (JStr k)\<rparr>)"
  by (simp add: assign_trait_def)

lemma assign_trait_fail:
  "strict_code st \<Longrightarrow> global_trait st = None \<Longrightarrow>
   assign_trait k st = (Inl (ReferenceError ''trait is not defined''), st)"
  by (simp add: assign_trait_def)

lemma trait_loop_ok:
  "\<not> (strict_code st \<and> global_trait st = None) \<Longrightarrow>
   trait_loop traits ks u st =
     (Inr (fold (classify_trait traits) ks u),
      if ks = [] then st else st\<lparr>global_trait := Some (JStr (last ks))\<rparr>)"
proof (induction ks arbitrary: u st)
  case Nil
  then show ?case by simp
next
  case (Cons k ks)
  let ?st1 = "st\<lparr>global_trait := Some (JStr k)\<rparr>"
  have "\<not> (strict_code ?st1 \<and> global_trait ?st1 = None)" by simp
  from Cons.IH [OF this] Cons.prems show ?case
    by (simp add: assign_trait_ok bindE_def)
qed

lemma trait_loop_fail:
  "strict_code st \<Longrightarrow> global_trait st = None \<Longrightarrow> ks \<noteq> [] \<Longrightarrow>
   trait_loop traits ks u st = (Inl (ReferenceError ''trait is not defined''), st)"
  by (cases ks) (simp_all add: assign_trait_fail bindE_def)

lemma reflp_same_but_trait [simp]: "reflp same_but_trait"
  by (simp add: reflp_def same_but_trait_def)

lemma transp_same_but_trait [simp]: "transp same_but_trait"
  by (simp add: transp_def same_but_trait_def)

lemma preserves_trait_loop: "preserves same_but_trait (trait_loop traits ks u)"
proof (induction ks arbitrary: u)
  case Nil
  show ?case by (simp only: trait_loop.simps) (rule preserves_returnE, simp)
next
  case (Cons k ks)
  have "preserves same_but_trait (assign_trait k)"
    by (simp add: preserves_def assign_trait_def same_but_trait_def)
  with Cons.IH show ?case by (simp add: preserves_bindE)
qed

lemma same_but_trait_extends: "same_but_trait st st' \<Longrightarrow> extends st st'"
  by (simp add: same_but_trait_def extends_def)

lemma classify_trait_snoc:
  assumes "k \<notin> set ks"
  shows "classify_trait traits k (classification traits ks) = classification traits (ks @ [k])"
proof (cases "truthy (allowed_lookup k)")
  case True
  let ?key = "js_to_string (allowed_lookup k)"
  have "?key \<notin> set (keys_of (uo_fields (classification traits ks)))"
    using assms allowed_key_inj [OF True] by (auto simp: classification_def)
  moreover have "?key \<noteq> ''__proto__''" using allowed_key_not_custom [OF True] by simp
  ultimately show ?thesis using True
    by (simp add: classify_trait_def classification_def obj_set_fresh)
next
  case False
  show ?thesis
  proof (cases "k = ''__proto__''")
    case True
    have "k \<notin> set (keys_of (uo_custom (classification traits ks)))"
      using True by (auto simp: classification_def)
    with False True show ?thesis by (simp add: classify_trait_def classification_def)
  next
    case proto: False
    have "k \<notin> set (keys_of (uo_custom (classification traits ks)))"
      using assms by (auto simp: classification_def)
    with False proto show ?thesis by (simp add: classify_trait_def classification_def obj_set_fresh)
  qed
qed

lemma fold_classify_trait:
  "distinct ks \<Longrightarrow> fold (classify_trait traits) ks empty_user_object = classification traits ks"
proof (induction ks rule: rev_induct)
  case Nil
  then show ?case by (simp add: empty_user_object_def classification_def)
next
  case (snoc k ks)
  then show ?case by (simp add: classify_trait_snoc)
qed

lemma read_back_classify_same:
  "k \<noteq> ''__proto__'' \<Longrightarrow> read_back (classify_trait traits k u) k = Some (get_prop traits k)"
  using allowed_key_not_custom(2) [of k]
  by (simp add: read_back_def classify_trait_def Let_def)

lemma read_back_classify_other:
  assumes "x \<noteq> k"
  shows "read_back (classify_trait traits x u) k = read_back u k"
proof (cases "truthy (allowed_lookup x)")
  case True
  have "truthy (allowed_lookup k) \<Longrightarrow> js_to_string (allowed_lookup k) \<noteq> js_to_string (allowed_lookup x)"
    using allowed_key_inj [OF _ True] assms by metis
  with True show ?thesis by (simp add: read_back_def classify_trait_def Let_def)
next
  case False
  with assms show ?thesis by (simp add: read_back_def classify_trait_def Let_def)
qed

subsection \<open>The handler\<close>

lemma identify_unfold:
  "arg \<noteq> JUndef \<Longrightarrow> arg \<noteq> JNull \<Longrightarrow> get_prop arg ''payload'' = p \<Longrightarrow>
   p \<noteq> JUndef \<Longrightarrow> p \<noteq> JNull \<Longrightarrow>
   identify sdk arg =
     bindE (if is_string (get_prop p ''userId'') then countly_invoke sdk (Change_id (get_prop p ''userId''))
            else returnE ()) (\<lambda>_.
     bindE (if truthy (get_prop p ''traits'')
            then trait_loop (get_prop p ''traits'') (for_in_keys (get_prop p ''traits'')) empty_user_object
            else returnE empty_user_object) (\<lambda>u.
     countly_invoke sdk (User_details (user_object_value u))))"
  by (simp add: identify_def require_coercible_def Let_def)

lemma change_id_step:
  "countly_bound st \<Longrightarrow> \<forall>c. sdk c = None \<Longrightarrow>
   (if is_string uid then countly_invoke sdk (Change_id uid) else returnE ()) st =
   (Inr (), st\<lparr>sdk_calls := sdk_calls st @ (if is_string uid then [Change_id uid] else [])\<rparr>)"
  by simp

lemma traits_step:
  assumes "wf_keys traits"
    and "for_in_keys traits = [] \<or> \<not> strict_code st \<or> global_trait st \<noteq> None"
  shows "(if truthy traits then trait_loop traits (for_in_keys traits) empty_user_object
          else returnE empty_user_object) st =
         (Inr (classification traits (for_in_keys traits)),
          if for_in_keys traits = [] then st
          else st\<lparr>global_trait := Some (JStr (last (for_in_keys traits)))\<rparr>)"
proof (cases "truthy traits \<and> for_in_keys traits \<noteq> []")
  case True
  with assms(2) have "\<not> (strict_code st \<and> global_trait st = None)" by blast
  moreover have "distinct (for_in_keys traits)" using assms(1) by (rule distinct_for_in_keys)
  ultimately show ?thesis using True by (simp add: trait_loop_ok fold_classify_trait)
next
  case False
  then have "for_in_keys traits = []" by (auto simp: for_in_keys_falsy)
  then show ?thesis by (simp add: classification_def empty_user_object_def)
qed

text \<open>
  With the SDK loaded and not throwing, \<open>identify\<close> returns normally when the
  loop cannot hit the undeclared variable, and its whole effect is this state.
\<close>

lemma identify_ok:
  assumes bound: "countly_bound st" and quiet: "\<forall>c. sdk c = None"
    and arg: "arg \<noteq> JUndef" "arg \<noteq> JNull" "get_prop arg ''payload'' = p"
    and payload: "p \<noteq> JUndef" "p \<noteq> JNull" "wf_keys (get_prop p ''traits'')"
    and mode: "for_in_keys (get_prop p ''traits'') = [] \<or> \<not> strict_code st \<or> global_trait st \<noteq> None"
  shows "identify sdk arg st =
           (Inr (), st\<lparr>global_trait :=
                       (if for_in_keys (get_prop p ''traits'') = [] then global_trait st
                        else Some (JStr (last (for_in_keys (get_prop p ''traits''))))),
                      sdk_calls := sdk_calls st
                        @ (if is_string (get_prop p ''userId'') then [Change_id (get_prop p ''userId'')] else [])
                        @ [User_details (user_object_value (classification (get_prop p ''traits'')
                                                          (for_in_keys (get_prop p ''traits''))))]\<rparr>)"
proof -
  let ?uid = "get_prop p ''userId''" and ?traits = "get_prop p ''traits''"
  let ?st1 = "st\<lparr>sdk_calls := sdk_calls st @ (if is_string ?uid then [Change_id ?uid] else [])\<rparr>"
  have "for_in_keys ?traits = [] \<or> \<not> strict_code ?st1 \<or> global_trait ?st1 \<noteq> None"
    using mode by simp
  note s2 = traits_step [OF payload(3) this]
  show ?thesis
    using bound quiet by (simp add: identify_unfold [OF arg payload(1,2)] bindE_def s2 change_id_step)
qed

lemma allowed_lookup_field_names_undef: "k \<in> set allowedProps \<Longrightarrow> allowed_lookup k = JUndef"
  by (auto simp: allowedProps_def allowed_lookup_cases index_of_key_alpha decimal_digits_def
                 inherited_array_def array_proto_methods_def object_proto_methods_def)

subsection \<open>Properties\<close>

text \<open>
  C2: the loop body files every trait named by
  one of the eight predefined fields under \<open>custom\<close>, because
  \<open>allowedProps[name]\<close> is undefined for each of them (line 67 indexes the
  array by the name instead of testing membership).
\<close>

theorem classify_trait_field_name:
  "k \<in> set allowedProps \<Longrightarrow>
   classify_trait traits k u = u\<lparr>uo_custom := obj_set (uo_custom u) k (get_prop traits k)\<rparr>"
  by (simp add: classify_trait_def allowed_lookup_field_names_undef)

theorem classify_trait_field_name_witness:
  "''email'' \<in> set allowedProps
   \<and> classify_trait (JObj [(''email'', JStr ''a@b.com'')]) ''email'' empty_user_object
     = \<lparr>uo_fields = [], uo_custom = [(''email'', JStr ''a@b.com'')]\<rparr>"
  using classify_trait_field_name [of "''email''" "JObj [(''email'', JStr ''a@b.com'')]" empty_user_object]
  by (simp add: allowedProps_def empty_user_object_def obj_set_def)

text \<open>
  C3: when the loop variable can be assigned,
  the loop over distinct keys returns the classification and leaves the last
  key in the global \<open>trait\<close>.
\<close>

theorem trait_loop_classification:
  "\<not> (strict_code st \<and> global_trait st = None) \<Longrightarrow> distinct ks \<Longrightarrow>
   trait_loop traits ks empty_user_object st =
     (Inr (classification traits ks),
      if ks = [] then st else st\<lparr>global_trait := Some (JStr (last ks))\<rparr>)"
  by (simp add: trait_loop_ok fold_classify_trait)

theorem trait_loop_classification_witness:
  "\<not> (strict_code \<lparr>countly_bound = True, strict_code = False, global_trait = None, sdk_calls = []\<rparr>
      \<and> global_trait \<lparr>countly_bound = True, strict_code = False, global_trait = None, sdk_calls = []\<rparr> = None)
   \<and> distinct [''2'', ''plan'']
   \<and> trait_loop (JObj [(''2'', JStr ''x''), (''plan'', JStr ''pro'')]) [''2'', ''plan''] empty_user_object
       \<lparr>countly_bound = True, strict_code = False, global_trait = None, sdk_calls = []\<rparr> =
     (Inr \<lparr>uo_fields = [(''email'', JStr ''x'')], uo_custom = [(''plan'', JStr ''pro'')]\<rparr>,
      \<lparr>countly_bound = True, strict_code = False, global_trait = Some (JStr ''plan''), sdk_calls = []\<rparr>)"
proof -
  have two: "allowed_lookup ''2'' = JStr ''email''"
    using allowed_lookup_index [of 2]
    by (simp add: string_of_nat.simps digit_char_def decimal_digits_def allowedProps_def)
  have plan: "allowed_lookup ''plan'' = JUndef"
    by (simp add: allowed_lookup_cases index_of_key_alpha decimal_digits_def
                  inherited_array_def array_proto_methods_def object_proto_methods_def)
  show ?thesis
    using trait_loop_classification [of "\<lparr>countly_bound = True, strict_code = False, global_trait = None, sdk_calls = []\<rparr>"
        "[''2'', ''plan'']" "JObj [(''2'', JStr ''x''), (''plan'', JStr ''pro'')]"]
    by (simp add: classification_def two plan)
qed

text \<open>
  C1: with the SDK loaded and not throwing, and the loop
  able to assign its variable, \<open>identify\<close> returns normally after exactly
  these SDK calls: \<open>change_id(userId)\<close> when \<open>userId\<close> is a string, then
  \<open>user_details\<close> with the classified traits, always last.
\<close>

theorem identify_calls:
  assumes "countly_bound st" "\<forall>c. sdk c = None"
    and "arg \<noteq> JUndef" "arg \<noteq> JNull" "get_prop arg ''payload'' = p"
    and "p \<noteq> JUndef" "p \<noteq> JNull" "wf_keys (get_prop p ''traits'')"
    and "for_in_keys (get_prop p ''traits'') = [] \<or> \<not> strict_code st \<or> global_trait st \<noteq> None"
  shows "\<exists>st'. identify sdk arg st = (Inr (), st') \<and>
           sdk_calls st' = sdk_calls st
             @ (if is_string (get_prop p ''userId'') then [Change_id (get_prop p ''userId'')] else [])
             @ [User_details (user_object_value (classification (get_prop p ''traits'')
                                                    (for_in_keys (get_prop p ''traits''))))]"
  by (simp add: identify_ok [OF assms])

theorem identify_calls_witness:
  "countly_bound \<lparr>countly_bound = True, strict_code = True, global_trait = None, sdk_calls = []\<rparr>
   \<and> (\<forall>c. (\<lambda>_. None) c = (None :: string option))
   \<and> JObj [(''payload'', JObj [(''userId'', JStr ''u1''), (''traits'', JNull)])] \<noteq> JUndef
   \<and> JObj [(''payload'', JObj [(''userId'', JStr ''u1''), (''traits'', JNull)])] \<noteq> JNull
   \<and> JObj [(''userId'', JStr ''u1''), (''traits'', JNull)] \<noteq> JUndef
   \<and> JObj [(''userId'', JStr ''u1''), (''traits'', JNull)] \<noteq> JNull
   \<and> wf_keys JNull \<and> for_in_keys JNull = []
   \<and> (\<exists>st'. identify (\<lambda>_. None) (JObj [(''payload'', JObj [(''userId'', JStr ''u1''), (''traits'', JNull)])])
              \<lparr>countly_bound = True, strict_code = True, global_trait = None, sdk_calls = []\<rparr> = (Inr (), st')
         \<and> sdk_calls st' = [Change_id (JStr ''u1''), User_details (JObj [(''custom'', JObj [])])])"
  using identify_calls [of "\<lparr>countly_bound = True, strict_code = True, global_trait = None, sdk_calls = []\<rparr>"
      "\<lambda>_. None" "JObj [(''payload'', JObj [(''userId'', JStr ''u1''), (''traits'', JNull)])]"
      "JObj [(''userId'', JStr ''u1''), (''traits'', JNull)]"]
  by (simp add: classification_def user_object_value_def)

text \<open>
  C4: in strict code with no global
  \<open>trait\<close> binding, \<open>identify\<close> with any enumerable trait throws a
  ReferenceError from line 66: the identity change has already been sent, the
  user details never are.
\<close>

theorem identify_strict_reference_error:
  assumes "countly_bound st" "\<forall>c. sdk c = None" "strict_code st" "global_trait st = None"
    and "arg \<noteq> JUndef" "arg \<noteq> JNull" "get_prop arg ''payload'' = p"
    and "p \<noteq> JUndef" "p \<noteq> JNull" "for_in_keys (get_prop p ''traits'') \<noteq> []"
  shows "identify sdk arg st =
           (Inl (ReferenceError ''trait is not defined''),
            st\<lparr>sdk_calls := sdk_calls st
               @ (if is_string (get_prop p ''userId'') then [Change_id (get_prop p ''userId'')] else [])\<rparr>)"
proof -
  have "truthy (get_prop p ''traits'')" using assms(10) for_in_keys_falsy by blast
  then show ?thesis
    using assms by (simp add: identify_unfold bindE_def change_id_step trait_loop_fail)
qed

theorem identify_strict_reference_error_witness:
  "countly_bound \<lparr>countly_bound = True, strict_code = True, global_trait = None, sdk_calls = []\<rparr>
   \<and> (\<forall>c. (\<lambda>_. None) c = (None :: string option))
   \<and> strict_code \<lparr>countly_bound = True, strict_code = True, global_trait = None, sdk_calls = []\<rparr>
   \<and> global_trait \<lparr>countly_bound = True, strict_code = True, global_trait = None, sdk_calls = []\<rparr> = None
   \<and> JObj [(''payload'', JObj [(''userId'', JStr ''u1''), (''traits'', JObj [(''plan'', JStr ''pro'')])])] \<noteq> JUndef
   \<and> JObj [(''payload'', JObj [(''userId'', JStr ''u1''), (''traits'', JObj [(''plan'', JStr ''pro'')])])] \<noteq> JNull
   \<and> JObj [(''userId'', JStr ''u1''), (''traits'', JObj [(''plan'', JStr ''pro'')])] \<noteq> JUndef
   \<and> JObj [(''userId'', JStr ''u1''), (''traits'', JObj [(''plan'', JStr ''pro'')])] \<noteq> JNull
   \<and> for_in_keys (JObj [(''plan'', JStr ''pro'')]) \<noteq> []
   \<and> identify (\<lambda>_. None) (JObj [(''payload'', JObj [(''userId'', JStr ''u1''), (''traits'', JObj [(''plan'', JStr ''pro'')])])])
       \<lparr>countly_bound = True, strict_code = True, global_trait = None, sdk_calls = []\<rparr> =
     (Inl (ReferenceError ''trait is not defined''),
      \<lparr>countly_bound = True, strict_code = True, global_trait = None, sdk_calls = [Change_id (JStr ''u1'')]\<rparr>)"
  using identify_strict_reference_error [of "\<lparr>countly_bound = True, strict_code = True, global_trait = None, sdk_calls = []\<rparr>"
      "\<lambda>_. None" "JObj [(''payload'', JObj [(''userId'', JStr ''u1''), (''traits'', JObj [(''plan'', JStr ''pro'')])])]"
      "JObj [(''userId'', JStr ''u1''), (''traits'', JObj [(''plan'', JStr ''pro'')])]"]
  by (simp add: own_keys_def index_of_key_alpha decimal_digits_def)

text \<open>
  C14: in sloppy code, \<open>identify\<close> with
  enumerable traits leaves the last enumerated trait name in the global
  binding \<open>trait\<close>, visible to every other script of the process.
\<close>

theorem identify_leaks_trait_global:
  assumes "countly_bound st" "\<forall>c. sdk c = None" "\<not> strict_code st"
    and "arg \<noteq> JUndef" "arg \<noteq> JNull" "get_prop arg ''payload'' = p"
    and "p \<noteq> JUndef" "p \<noteq> JNull" "wf_keys (get_prop p ''traits'')"
    and "for_in_keys (get_prop p ''traits'') \<noteq> []"
  shows "global_trait (snd (identify sdk arg st)) = Some (JStr (last (for_in_keys (get_prop p ''traits''))))"
  using assms by (simp add: identify_ok)

theorem identify_leaks_trait_global_witness:
  "countly_bound \<lparr>countly_bound = True, strict_code = False, global_trait = None, sdk_calls = []\<rparr>
   \<and> (\<forall>c. (\<lambda>_. None) c = (None :: string option))
   \<and> \<not> strict_code \<lparr>countly_bound = True, strict_code = False, global_trait = None, sdk_calls = []\<rparr>
   \<and> JObj [(''payload'', JObj [(''traits'', JObj [(''plan'', JStr ''pro''), (''1'', JNull)])])] \<noteq> JUndef
   \<and> JObj [(''payload'', JObj [(''traits'', JObj [(''plan'', JStr ''pro''), (''1'', JNull)])])] \<noteq> JNull
   \<and> JObj [(''traits'', JObj [(''plan'', JStr ''pro''), (''1'', JNull)])] \<noteq> JUndef
   \<and> JObj [(''traits'', JObj [(''plan'', JStr ''pro''), (''1'', JNull)])] \<noteq> JNull
   \<and> wf_keys (JObj [(''plan'', JStr ''pro''), (''1'', JNull)])
   \<and> for_in_keys (JObj [(''plan'', JStr ''pro''), (''1'', JNull)]) \<noteq> []
   \<and> global_trait (snd (identify (\<lambda>_. None)
          (JObj [(''payload'', JObj [(''traits'', JObj [(''plan'', JStr ''pro''), (''1'', JNull)])])])
          \<lparr>countly_bound = True, strict_code = False, global_trait = None, sdk_calls = []\<rparr>))
       = Some (JStr ''plan'')"
proof -
  have one: "index_of_key ''1'' = Some 1"
    by (simp add: index_of_key_iff string_of_nat.simps digit_char_def decimal_digits_def)
  have keys: "own_keys [(''plan'', JStr ''pro''), (''1'', JNull)] = [''1'', ''plan'']"
    by (simp add: own_keys_def one index_of_key_alpha decimal_digits_def)
  show ?thesis
    using identify_leaks_trait_global [of "\<lparr>countly_bound = True, strict_code = False, global_trait = None, sdk_calls = []\<rparr>"
        "\<lambda>_. None" "JObj [(''payload'', JObj [(''traits'', JObj [(''plan'', JStr ''pro''), (''1'', JNull)])])]"
        "JObj [(''traits'', JObj [(''plan'', JStr ''pro''), (''1'', JNull)])]"]
    by (simp add: keys)
qed

text \<open>
  C15: the user object handed to
  \<open>user_details\<close> is a well-formed object: its own keys are distinct,
  \<open>custom\<close> is one of them exactly once, and the keys of \<open>custom\<close> are
  distinct, for any traits object with distinct keys.
\<close>

theorem classification_well_formed:
  "wf_keys traits \<Longrightarrow>
   wf_keys (user_object_value (classification traits (for_in_keys traits)))
   \<and> wf_keys (JObj (uo_custom (classification traits (for_in_keys traits))))"
proof -
  assume "wf_keys traits"
  then have d: "distinct (for_in_keys traits)" by (rule distinct_for_in_keys)
  let ?T = "filter (\<lambda>k. truthy (allowed_lookup k)) (for_in_keys traits)"
  have "inj_on (\<lambda>k. js_to_string (allowed_lookup k)) (set ?T)"
    by (auto intro: inj_onI allowed_key_inj)
  with d have "distinct (map (\<lambda>k. js_to_string (allowed_lookup k)) ?T)"
    by (simp add: distinct_map)
  moreover have "''custom'' \<notin> set (map (\<lambda>k. js_to_string (allowed_lookup k)) ?T)"
  proof
    assume "''custom'' \<in> set (map (\<lambda>k. js_to_string (allowed_lookup k)) ?T)"
    then obtain k where "truthy (allowed_lookup k)" "js_to_string (allowed_lookup k) = ''custom''"
      by auto
    with allowed_key_not_custom(1) show False by blast
  qed
  ultimately show ?thesis
    using d by (simp add: classification_def user_object_value_def comp_def)
qed

theorem classification_well_formed_witness:
  "wf_keys (JObj [(''2'', JStr ''x''), (''plan'', JStr ''pro'')])
   \<and> wf_keys (user_object_value (classification (JObj [(''2'', JStr ''x''), (''plan'', JStr ''pro'')])
                  (for_in_keys (JObj [(''2'', JStr ''x''), (''plan'', JStr ''pro'')]))))
   \<and> wf_keys (JObj (uo_custom (classification (JObj [(''2'', JStr ''x''), (''plan'', JStr ''pro'')])
                  (for_in_keys (JObj [(''2'', JStr ''x''), (''plan'', JStr ''pro'')])))))"
proof -
  have "wf_keys (JObj [(''2'', JStr ''x''), (''plan'', JStr ''pro'')])" by simp
  then show ?thesis using classification_well_formed by blast
qed

text \<open>
  C22: reading a trait back from where the loop
  body wrote it (\<open>userObject[allowedProps[trait]]\<close> when the lookup is truthy,
  \<open>userObject.custom[trait]\<close> otherwise) gives the trait's value, for every
  trait the loop visited other than \<open>__proto__\<close>, whatever came after it.
\<close>

theorem classify_trait_read_back:
  "k \<in> set ks \<Longrightarrow> k \<noteq> ''__proto__'' \<Longrightarrow>
   read_back (fold (classify_trait traits) ks u) k = Some (get_prop traits k)"
proof (induction ks rule: rev_induct)
  case Nil
  then show ?case by simp
next
  case (snoc x xs)
  show ?case
  proof (cases "x = k")
    case True
    with snoc.prems show ?thesis by (simp add: read_back_classify_same)
  next
    case False
    with snoc show ?thesis by (simp add: read_back_classify_other)
  qed
qed

theorem classify_trait_read_back_witness:
  "''2'' \<in> set [''2'', ''plan'', ''2''] \<and> ''2'' \<noteq> ''__proto__''
   \<and> read_back (fold (classify_trait (JObj [(''2'', JStr ''x''), (''plan'', JStr ''pro'')]))
                 [''2'', ''plan'', ''2''] empty_user_object) ''2'' = Some (JStr ''x'')"
  using classify_trait_read_back [of "''2''" "[''2'', ''plan'', ''2'']" "JObj [(''2'', JStr ''x''), (''plan'', JStr ''pro'')]"
      empty_user_object]
  by simp

end
