(* ===== verification/Plugin.thy ===== *)
theory Plugin
  imports Identify
begin

text \<open>
  The plugin object that \<open>countlyPlugin\<close> returns (node.js lines 21--103):
  its name and configuration, the handlers \<open>initialize\<close>, \<open>page\<close>,
  \<open>track\<close> and \<open>identify\<close> (the last one in theory \<open>Identify\<close>), and the
  auxiliary \<open>methods\<close>. Every handler is a state step over \<open>rt\<close> that may
  throw: a destructuring TypeError, a configuration Error, the TypeError of an
  unbound \<open>Countly\<close>, or an error thrown by the SDK.
  \<open>plugin_call\<close> is the capability set as the host framework sees it: one
  constructor of \<open>hook\<close> per entry of the returned object.
\<close>

section \<open>Definitions\<close>

record plugin =
  plugin_name :: string
  plugin_config :: jsval

text \<open>Lines 21--24: the default parameter applies only to \<open>undefined\<close>.\<close>

definition countlyPlugin :: "jsval \<Rightarrow> plugin" where
  "countlyPlugin cfg =
     \<lparr>plugin_name = ''countly'', plugin_config = (if cfg = JUndef then JObj [] else cfg)\<rparr>"

text \<open>Lines 26--41.\<close>

definition initialize :: "sdk \<Rightarrow> jsval \<Rightarrow> unit step" where
  "initialize sdk arg =
     bindE (liftE (require_coercible arg)) (\<lambda>a.
     bindE (liftE (require_coercible (get_prop a ''config''))) (\<lambda>config.
       let app_key = get_prop config ''app_key'';
           server_url = get_prop config ''server_url'';
           debug = get_prop config ''debug'' in
       if \<not> truthy app_key then throwE (Error ''No app_key provided'')
       else if \<not> truthy server_url then throwE (Error ''No server_url provided'')
       else countly_invoke sdk
              (Init (JObj [(''app_key'', app_key), (''server_url'', server_url),
                           (''debug'', js_or debug (JBool False))]))))"

text \<open>Lines 43--47.\<close>

definition page :: "sdk \<Rightarrow> jsval \<Rightarrow> unit step" where
  "page sdk arg =
     bindE (liftE (require_coercible arg)) (\<lambda>a.
     bindE (liftE (require_coercible (get_prop a ''payload''))) (\<lambda>payload.
     bindE (liftE (require_coercible (get_prop payload ''properties''))) (\<lambda>properties.
       countly_invoke sdk (Track_view (get_prop properties ''path'')))))"

text \<open>Lines 49--55.\<close>

definition track :: "sdk \<Rightarrow> jsval \<Rightarrow> unit step" where
  "track sdk arg =
     bindE (liftE (require_coercible arg)) (\<lambda>a.
       countly_invoke sdk
         (Add_event (JObj [(''key'', get_prop a ''eventName''), (''count'', JNum 1),
                           (''segmentation'', get_prop a ''payload'')])))"

text \<open>Lines 79--81 and 83--85.\<close>

definition enableErrorTracking :: "sdk \<Rightarrow> unit step" where
  "enableErrorTracking sdk = countly_invoke sdk Track_errors"

definition enableSessionTracking :: "sdk \<Rightarrow> unit step" where
  "enableSessionTracking sdk = countly_invoke sdk Track_sessions"

text \<open>Lines 96--100: the payload is destructured and rebuilt field by field.\<close>

definition reportTrace :: "sdk \<Rightarrow> jsval \<Rightarrow> unit step" where
  "reportTrace sdk payload =
     bindE (liftE (require_coercible payload)) (\<lambda>p.
       countly_invoke sdk
         (Report_trace (JObj [(''type'', get_prop p ''type''), (''name'', get_prop p ''name''),
                              (''stz'', get_prop p ''stz''), (''etz'', get_prop p ''etz''),
                              (''app_metrics'', get_prop p ''app_metrics'')])))"

text \<open>The capability set of lines 22--102, one constructor per entry.\<close>

datatype hook =
    HInitialize jsval
  | HPage jsval
  | HTrack jsval
  | HIdentify jsval
  | HEnableErrorTracking
  | HEnableSessionTracking
  | HReportTrace jsval

fun plugin_call :: "sdk \<Rightarrow> hook \<Rightarrow> unit step" where
  "plugin_call sdk (HInitialize arg) = initialize sdk arg"
| "plugin_call sdk (HPage arg) = page sdk arg"
| "plugin_call sdk (HTrack arg) = track sdk arg"
| "plugin_call sdk (HIdentify arg) = identify sdk arg"
| "plugin_call sdk HEnableErrorTracking = enableErrorTracking sdk"
| "plugin_call sdk HEnableSessionTracking = enableSessionTracking sdk"
| "plugin_call sdk (HReportTrace p) = reportTrace sdk p"

section \<open>Lemmas\<close>

lemma initialize_unfold:
  "arg \<noteq> JUndef \<Longrightarrow> arg \<noteq> JNull \<Longrightarrow> get_prop arg ''config'' = c \<Longrightarrow> c \<noteq> JUndef \<Longrightarrow> c \<noteq> JNull \<Longrightarrow>
   initialize sdk arg =
     (if \<not> truthy (get_prop c ''app_key'') then throwE (Error ''No app_key provided'')
      else if \<not> truthy (get_prop c ''server_url'') then throwE (Error ''No server_url provided'')
      else countly_invoke sdk
             (Init (JObj [(''app_key'', get_prop c ''app_key''), (''server_url'', get_prop c ''server_url''),
                          (''debug'', js_or (get_prop c ''debug'') (JBool False))])))"
  by (simp add: initialize_def Let_def)

subsection \<open>Properties\<close>

text \<open>
  C5: a configuration whose \<open>app_key\<close> is
  falsy makes \<open>initialize\<close> throw \<open>Error("No app_key provided")\<close> before the
  SDK is touched: the state is unchanged, whatever the other fields are.
\<close>

theorem initialize_missing_app_key:
  assumes "arg \<noteq> JUndef" "arg \<noteq> JNull" "get_prop arg ''config'' = c" "c \<noteq> JUndef" "c \<noteq> JNull"
    and "\<not> truthy (get_prop c ''app_key'')"
  shows "initialize sdk arg st = (Inl (Error ''No app_key provided''), st)"
  using assms by (simp add: initialize_unfold)

theorem initialize_missing_app_key_witness:
  "JObj [(''config'', JObj [(''server_url'', JStr ''https://x'')])] \<noteq> JUndef
   \<and> JObj [(''config'', JObj [(''server_url'', JStr ''https://x'')])] \<noteq> JNull
   \<and> JObj [(''server_url'', JStr ''https://x'')] \<noteq> JUndef \<and> JObj [(''server_url'', JStr ''https://x'')] \<noteq> JNull
   \<and> \<not> truthy (get_prop (JObj [(''server_url'', JStr ''https://x'')]) ''app_key'')
   \<and> initialize (\<lambda>_. None) (JObj [(''config'', JObj [(''server_url'', JStr ''https://x'')])])
       \<lparr>countly_bound = True, strict_code = True, global_trait = None, sdk_calls = []\<rparr>
     = (Inl (Error ''No app_key provided''),
        \<lparr>countly_bound = True, strict_code = True, global_trait = None, sdk_calls = []\<rparr>)"
  using initialize_missing_app_key [of "JObj [(''config'', JObj [(''server_url'', JStr ''https://x'')])]"
      "JObj [(''server_url'', JStr ''https://x'')]" "\<lambda>_. None"
      "\<lparr>countly_bound = True, strict_code = True, global_trait = None, sdk_calls = []\<rparr>"]
  by (simp add: inherited_object_def object_proto_methods_def)

text \<open>
  C6: with a truthy \<open>app_key\<close> and a falsy
  \<open>server_url\<close>, \<open>initialize\<close> throws \<open>Error("No server_url provided")\<close>
  and leaves the state unchanged.
\<close>

theorem initialize_missing_server_url:
  assumes "arg \<noteq> JUndef" "arg \<noteq> JNull" "get_prop arg ''config'' = c" "c \<noteq> JUndef" "c \<noteq> JNull"
    and "truthy (get_prop c ''app_key'')" "\<not> truthy (get_prop c ''server_url'')"
  shows "initialize sdk arg st = (Inl (Error ''No server_url provided''), st)"
  using assms by (simp add: initialize_unfold)

theorem initialize_missing_server_url_witness:
  "JObj [(''config'', JObj [(''app_key'', JStr ''k''), (''server_url'', JStr [])])] \<noteq> JUndef
   \<and> JObj [(''config'', JObj [(''app_key'', JStr ''k''), (''server_url'', JStr [])])] \<noteq> JNull
   \<and> JObj [(''app_key'', JStr ''k''), (''server_url'', JStr [])] \<noteq> JUndef
   \<and> JObj [(''app_key'', JStr ''k''), (''server_url'', JStr [])] \<noteq> JNull
   \<and> truthy (get_prop (JObj [(''app_key'', JStr ''k''), (''server_url'', JStr [])]) ''app_key'')
   \<and> \<not> truthy (get_prop (JObj [(''app_key'', JStr ''k''), (''server_url'', JStr [])]) ''server_url'')
   \<and> initialize (\<lambda>_. None) (JObj [(''config'', JObj [(''app_key'', JStr ''k''), (''server_url'', JStr [])])])
       \<lparr>countly_bound = True, strict_code = True, global_trait = None, sdk_calls = []\<rparr>
     = (Inl (Error ''No server_url provided''),
        \<lparr>countly_bound = True, strict_code = True, global_trait = None, sdk_calls = []\<rparr>)"
  using initialize_missing_server_url [of "JObj [(''config'', JObj [(''app_key'', JStr ''k''), (''server_url'', JStr [])])]"
      "JObj [(''app_key'', JStr ''k''), (''server_url'', JStr [])]" "\<lambda>_. None"
      "\<lparr>countly_bound = True, strict_code = True, global_trait = None, sdk_calls = []\<rparr>"]
  by simp

text \<open>
  C7: with both keys truthy and the SDK loaded,
  \<open>initialize\<close> makes exactly one call, \<open>Countly.init\<close> with the two keys
  as given and \<open>debug\<close> equal to the configured value when that is truthy and
  to \<open>false\<close> otherwise; the SDK's own exception, if any, is the result.
\<close>

theorem initialize_calls_init:
  assumes "arg \<noteq> JUndef" "arg \<noteq> JNull" "get_prop arg ''config'' = c" "c \<noteq> JUndef" "c \<noteq> JNull"
    and "truthy (get_prop c ''app_key'')" "truthy (get_prop c ''server_url'')" "countly_bound st"
  shows "initialize sdk arg st =
           (case sdk (Init (JObj [(''app_key'', get_prop c ''app_key''), (''server_url'', get_prop c ''server_url''),
                                  (''debug'', if truthy (get_prop c ''debug'') then get_prop c ''debug'' else JBool False)]))
            of None \<Rightarrow> Inr () | Some m \<Rightarrow> Inl (Upstream m),
            st\<lparr>sdk_calls := sdk_calls st @
              [Init (JObj [(''app_key'', get_prop c ''app_key''), (''server_url'', get_prop c ''server_url''),
                           (''debug'', if truthy (get_prop c ''debug'') then get_prop c ''debug'' else JBool False)])]\<rparr>)"
  using assms by (simp add: initialize_unfold countly_invoke_def js_or_def)

theorem initialize_calls_init_witness:
  "JObj [(''config'', JObj [(''app_key'', JStr ''k''), (''server_url'', JStr ''u''), (''debug'', JNum 0)])] \<noteq> JUndef
   \<and> JObj [(''config'', JObj [(''app_key'', JStr ''k''), (''server_url'', JStr ''u''), (''debug'', JNum 0)])] \<noteq> JNull
   \<and> JObj [(''app_key'', JStr ''k''), (''server_url'', JStr ''u''), (''debug'', JNum 0)] \<noteq> JUndef
   \<and> JObj [(''app_key'', JStr ''k''), (''server_url'', JStr ''u''), (''debug'', JNum 0)] \<noteq> JNull
   \<and> truthy (JStr ''k'') \<and> truthy (JStr ''u'')
   \<and> countly_bound \<lparr>countly_bound = True, strict_code = True, global_trait = None, sdk_calls = []\<rparr>
   \<and> initialize (\<lambda>_. None) (JObj [(''config'', JObj [(''app_key'', JStr ''k''), (''server_url'', JStr ''u''), (''debug'', JNum 0)])])
       \<lparr>countly_bound = True, strict_code = True, global_trait = None, sdk_calls = []\<rparr>
     = (Inr (), \<lparr>countly_bound = True, strict_code = True, global_trait = None,
                 sdk_calls = [Init (JObj [(''app_key'', JStr ''k''), (''server_url'', JStr ''u''), (''debug'', JBool False)])]\<rparr>)"
  using initialize_calls_init [of "JObj [(''config'', JObj [(''app_key'', JStr ''k''), (''server_url'', JStr ''u''), (''debug'', JNum 0)])]"
      "JObj [(''app_key'', JStr ''k''), (''server_url'', JStr ''u''), (''debug'', JNum 0)]"
      "\<lparr>countly_bound = True, strict_code = True, global_trait = None, sdk_calls = []\<rparr>" "\<lambda>_. None"]
  by simp

text \<open>
  C17: \<open>page\<close> reads \<open>payload.properties.path\<close> and
  makes exactly one call, \<open>Countly.track_view(path)\<close>, with the path as
  given (also when it is undefined).
\<close>

theorem page_track_view:
  assumes "arg \<noteq> JUndef" "arg \<noteq> JNull" "get_prop arg ''payload'' = p" "p \<noteq> JUndef" "p \<noteq> JNull"
    and "get_prop p ''properties'' = q" "q \<noteq> JUndef" "q \<noteq> JNull" "countly_bound st"
  shows "page sdk arg st =
           (case sdk (Track_view (get_prop q ''path'')) of None \<Rightarrow> Inr () | Some m \<Rightarrow> Inl (Upstream m),
            st\<lparr>sdk_calls := sdk_calls st @ [Track_view (get_prop q ''path'')]\<rparr>)"
  using assms by (simp add: page_def countly_invoke_def)

theorem page_track_view_witness:
  "JObj [(''payload'', JObj [(''properties'', JObj [(''path'', JStr ''/home'')])])] \<noteq> JUndef
   \<and> JObj [(''payload'', JObj [(''properties'', JObj [(''path'', JStr ''/home'')])])] \<noteq> JNull
   \<and> JObj [(''properties'', JObj [(''path'', JStr ''/home'')])] \<noteq> JUndef
   \<and> JObj [(''properties'', JObj [(''path'', JStr ''/home'')])] \<noteq> JNull
   \<and> JObj [(''path'', JStr ''/home'')] \<noteq> JUndef \<and> JObj [(''path'', JStr ''/home'')] \<noteq> JNull
   \<and> countly_bound \<lparr>countly_bound = True, strict_code = True, global_trait = None, sdk_calls = []\<rparr>
   \<and> page (\<lambda>_. None) (JObj [(''payload'', JObj [(''properties'', JObj [(''path'', JStr ''/home'')])])])
       \<lparr>countly_bound = True, strict_code = True, global_trait = None, sdk_calls = []\<rparr>
     = (Inr (), \<lparr>countly_bound = True, strict_code = True, global_trait = None,
                 sdk_calls = [Track_view (JStr ''/home'')]\<rparr>)"
  using page_track_view [of "JObj [(''payload'', JObj [(''properties'', JObj [(''path'', JStr ''/home'')])])]"
      "JObj [(''properties'', JObj [(''path'', JStr ''/home'')])]" "JObj [(''path'', JStr ''/home'')]"
      "\<lparr>countly_bound = True, strict_code = True, global_trait = None, sdk_calls = []\<rparr>" "\<lambda>_. None"]
  by simp

text \<open>
  C18: \<open>track\<close> makes exactly one call,
  \<open>Countly.add_event\<close> with \<open>key\<close> the event name, \<open>count\<close> fixed at 1
  and \<open>segmentation\<close> the payload passed through unchanged.
\<close>

theorem track_add_event:
  assumes "arg \<noteq> JUndef" "arg \<noteq> JNull" "countly_bound st"
  shows "track sdk arg st =
           (let ev = Add_event (JObj [(''key'', get_prop arg ''eventName''), (''count'', JNum 1),
                                      (''segmentation'', get_prop arg ''payload'')]) in
            (case sdk ev of None \<Rightarrow> Inr () | Some m \<Rightarrow> Inl (Upstream m),
             st\<lparr>sdk_calls := sdk_calls st @ [ev]\<rparr>))"
  using assms by (simp add: track_def countly_invoke_def Let_def)

theorem track_add_event_witness:
  "JObj [(''eventName'', JStr ''signup''), (''payload'', JObj [(''plan'', JStr ''pro'')])] \<noteq> JUndef
   \<and> JObj [(''eventName'', JStr ''signup''), (''payload'', JObj [(''plan'', JStr ''pro'')])] \<noteq> JNull
   \<and> countly_bound \<lparr>countly_bound = True, strict_code = True, global_trait = None, sdk_calls = []\<rparr>
   \<and> track (\<lambda>_. None) (JObj [(''eventName'', JStr ''signup''), (''payload'', JObj [(''plan'', JStr ''pro'')])])
       \<lparr>countly_bound = True, strict_code = True, global_trait = None, sdk_calls = []\<rparr>
     = (Inr (), \<lparr>countly_bound = True, strict_code = True, global_trait = None,
         sdk_calls = [Add_event (JObj [(''key'', JStr ''signup''), (''count'', JNum 1),
                                       (''segmentation'', JObj [(''plan'', JStr ''pro'')])])]\<rparr>)"
  using track_add_event [of "JObj [(''eventName'', JStr ''signup''), (''payload'', JObj [(''plan'', JStr ''pro'')])]"
      "\<lparr>countly_bound = True, strict_code = True, global_trait = None, sdk_calls = []\<rparr>" "\<lambda>_. None"]
  by simp

text \<open>
  C19: \<open>reportTrace\<close> forwards the five fields
  \<open>type\<close>, \<open>name\<close>, \<open>stz\<close>, \<open>etz\<close>, \<open>app_metrics\<close> unchanged in one
  \<open>Countly.report_trace\<close> call, with no check that \<open>stz \<le> etz\<close>.
\<close>

theorem reportTrace_forwards:
  assumes "p \<noteq> JUndef" "p \<noteq> JNull" "countly_bound st"
  shows "reportTrace sdk p st =
           (let c = Report_trace (JObj [(''type'', get_prop p ''type''), (''name'', get_prop p ''name''),
                                        (''stz'', get_prop p ''stz''), (''etz'', get_prop p ''etz''),
                                        (''app_metrics'', get_prop p ''app_metrics'')]) in
            (case sdk c of None \<Rightarrow> Inr () | Some m \<Rightarrow> Inl (Upstream m),
             st\<lparr>sdk_calls := sdk_calls st @ [c]\<rparr>))"
  using assms by (simp add: reportTrace_def countly_invoke_def Let_def)

theorem reportTrace_forwards_witness:
  "JObj [(''type'', JStr ''network''), (''name'', JStr ''api''), (''stz'', JNum 150), (''etz'', JNum 100),
         (''app_metrics'', JObj [(''bytes'', JNum 10)])] \<noteq> JUndef
   \<and> JObj [(''type'', JStr ''network''), (''name'', JStr ''api''), (''stz'', JNum 150), (''etz'', JNum 100),
         (''app_metrics'', JObj [(''bytes'', JNum 10)])] \<noteq> JNull
   \<and> countly_bound \<lparr>countly_bound = True, strict_code = True, global_trait = None, sdk_calls = []\<rparr>
   \<and> reportTrace (\<lambda>_. None)
       (JObj [(''type'', JStr ''network''), (''name'', JStr ''api''), (''stz'', JNum 150), (''etz'', JNum 100),
              (''app_metrics'', JObj [(''bytes'', JNum 10)])])
       \<lparr>countly_bound = True, strict_code = True, global_trait = None, sdk_calls = []\<rparr>
     = (Inr (), \<lparr>countly_bound = True, strict_code = True, global_trait = None,
         sdk_calls = [Report_trace (JObj [(''type'', JStr ''network''), (''name'', JStr ''api''),
                        (''stz'', JNum 150), (''etz'', JNum 100), (''app_metrics'', JObj [(''bytes'', JNum 10)])])]\<rparr>)"
  using reportTrace_forwards [of "JObj [(''type'', JStr ''network''), (''name'', JStr ''api''), (''stz'', JNum 150),
        (''etz'', JNum 100), (''app_metrics'', JObj [(''bytes'', JNum 10)])]"
      "\<lparr>countly_bound = True, strict_code = True, global_trait = None, sdk_calls = []\<rparr>" "\<lambda>_. None"]
  by simp

end
