(* ===== verification/Dispatch.thy ===== *)
theory Dispatch
  imports Plugin
begin

text \<open>
  The host framework (external to the repository) decides which hook runs
  when; it may call any hook in any order, also after a hook threw. The states
  reachable from a loaded module are therefore those of \<open>reachable\<close>, a step
  relation closed under every \<open>plugin_call\<close> whatever its outcome; a run of
  a given sequence of hooks is \<open>run_hooks\<close>.
  The per-hook guarantees are stated as predicates on steps (\<open>step_ok\<close>,
  \<open>adds_at_most\<close>, \<open>sdk_errors_exact\<close>, \<open>unbound_fails\<close>),
  each proved for the monad's combinators and the SDK call and then for every
  hook; the invariants of reachable states follow by rule induction. They hold
  for every SDK behaviour.
\<close>

section \<open>Definitions\<close>

inductive reachable :: "sdk \<Rightarrow> rt \<Rightarrow> rt \<Rightarrow> bool" for sdk :: sdk where
  start: "reachable sdk st0 st0"
| step: "reachable sdk st0 st \<Longrightarrow> plugin_call sdk h st = (r, st') \<Longrightarrow> reachable sdk st0 st'"

text \<open>An \<open>init\<close> call is configured when both keys it carries are truthy.\<close>

fun call_configured :: "countly_call \<Rightarrow> bool" where
  "call_configured (Init cfg) = (truthy (get_prop cfg ''app_key'') \<and> truthy (get_prop cfg ''server_url''))"
| "call_configured _ = True"

text \<open>
  What every handler guarantees between the state before and after it: the
  binding and the mode are kept and calls are only appended (\<open>extends\<close>); no
  call is made while \<open>Countly\<close> is unbound; every new call is configured; and
  a global \<open>trait\<close> once defined stays defined.
\<close>

definition step_ok :: "rt \<Rightarrow> rt \<Rightarrow> bool" where
  "step_ok st st' \<longleftrightarrow>
     extends st st'
     \<and> (\<not> countly_bound st \<longrightarrow> sdk_calls st' = sdk_calls st)
     \<and> (\<forall>c \<in> set (drop (length (sdk_calls st)) (sdk_calls st')). call_configured c)
     \<and> (global_trait st \<noteq> None \<longrightarrow> global_trait st' \<noteq> None)"

text \<open>A step makes at most \<open>n\<close> SDK calls.\<close>

definition adds_at_most :: "nat \<Rightarrow> 'a step \<Rightarrow> bool" where
  "adds_at_most n m \<longleftrightarrow>
     (\<forall>st r st'. m st = (r, st') \<longrightarrow> length (sdk_calls st') \<le> length (sdk_calls st) + n)"

text \<open>The message of an SDK exception that a step ends with, if it ends with one.\<close>

fun upstream_msg :: "js_error + 'a \<Rightarrow> string option" where
  "upstream_msg (Inl (Upstream m)) = Some m"
| "upstream_msg _ = None"

text \<open>
  The calls \<open>new\<close> that a step made fit its outcome \<open>u\<close> (the message of the
  SDK exception it ends with, if any) when no call but the last one threw, and
  the last one threw exactly when the step ends with that call's exception,
  with the SDK's message unchanged.
\<close>

definition calls_fit :: "sdk \<Rightarrow> string option \<Rightarrow> countly_call list \<Rightarrow> bool" where
  "calls_fit sdk u new \<longleftrightarrow>
     (\<forall>c \<in> set (butlast new). sdk c = None) \<and>
     (case u of Some msg \<Rightarrow> new \<noteq> [] \<and> sdk (last new) = Some msg
              | None \<Rightarrow> new = [] \<or> sdk (last new) = None)"

definition sdk_errors_exact :: "sdk \<Rightarrow> 'a step \<Rightarrow> bool" where
  "sdk_errors_exact sdk m \<longleftrightarrow>
     (\<forall>st r st'. m st = (r, st') \<longrightarrow>
        (\<exists>new. sdk_calls st' = sdk_calls st @ new \<and> calls_fit sdk (upstream_msg r) new))"

fun hook_budget :: "hook \<Rightarrow> nat" where
  "hook_budget (HIdentify _) = 2"
| "hook_budget _ = 1"

text \<open>
  The host running a sequence of hooks, one after the other, each on the state
  the previous one left, whatever its outcome: the results in order and the
  final state.
\<close>

fun run_hooks :: "sdk \<Rightarrow> hook list \<Rightarrow> rt \<Rightarrow> (js_error + unit) list \<times> rt" where
  "run_hooks sdk [] st = ([], st)"
| "run_hooks sdk (h # hs) st =
     (case plugin_call sdk h st of (r, st1) \<Rightarrow>
        (case run_hooks sdk hs st1 of (rs, st2) \<Rightarrow> (r # rs, st2)))"

text \<open>A step that cannot complete normally while \<open>Countly\<close> is unbound.\<close>

definition unbound_fails :: "'a step \<Rightarrow> bool" where
  "unbound_fails m \<longleftrightarrow> (\<forall>st r st'. \<not> countly_bound st \<longrightarrow> m st = (r, st') \<longrightarrow> isl r)"

section \<open>Lemmas\<close>

subsection \<open>The per-step guarantee\<close>

lemma reflp_step_ok [simp]: "reflp step_ok"
  by (simp add: reflp_def step_ok_def)

lemma transp_step_ok [simp]: "transp step_ok"
proof (rule transpI)
  fix s1 s2 s3
  assume a: "step_ok s1 s2" and b: "step_ok s2 s3"
  from a obtain cs1 where c1: "sdk_calls s2 = sdk_calls s1 @ cs1"
    by (auto simp: step_ok_def extends_def)
  from b obtain cs2 where c2: "sdk_calls s3 = sdk_calls s2 @ cs2"
    by (auto simp: step_ok_def extends_def)
  from a b c1 c2 show "step_ok s1 s3"
    unfolding step_ok_def extends_def by auto
qed

lemma step_ok_invoke [intro]: "call_configured c \<Longrightarrow> preserves step_ok (countly_invoke sdk c)"
  by (auto simp: preserves_def countly_invoke_def step_ok_def extends_def)

lemma step_ok_assign_trait [intro]: "preserves step_ok (assign_trait k)"
  by (auto simp: preserves_def assign_trait_def step_ok_def extends_def)

lemma step_ok_trait_loop [intro]: "preserves step_ok (trait_loop traits ks u)"
  by (induction ks arbitrary: u) (auto simp: preserves_returnE)

lemma step_ok_lift [intro]: "preserves step_ok (liftE r)" "preserves step_ok (throwE e)"
  "preserves step_ok (returnE a)"
  by (simp_all add: preserves_liftE preserves_throwE preserves_returnE)

lemmas step_ok_intros = preserves_bindE preserves_if step_ok_lift step_ok_invoke step_ok_trait_loop

lemma step_ok_plugin_call: "preserves step_ok (plugin_call sdk h)"
  by (cases h)
     (simp_all add: initialize_def page_def track_def identify_def enableErrorTracking_def
        enableSessionTracking_def reportTrace_def Let_def,
      (intro step_ok_intros; simp)+)

lemma reachable_step_ok: "reachable sdk st0 st \<Longrightarrow> step_ok st0 st"
proof (induction rule: reachable.induct)
  case (start st0)
  then show ?case by (simp add: reflpD)
next
  case (step st0 st h r st')
  have "step_ok st st'" using step_ok_plugin_call step.hyps(2) by (auto simp: preserves_def)
  with step.IH show ?case by (meson transpD transp_step_ok)
qed

subsection \<open>Counting calls\<close>

lemma adds_bindE [intro]:
  "adds_at_most a m \<Longrightarrow> (\<And>x. adds_at_most b (f x)) \<Longrightarrow> adds_at_most (a + b) (bindE m f)"
  unfolding adds_at_most_def bindE_def
  by (fastforce split: prod.splits sum.splits)

lemma adds_if [intro]: "adds_at_most n m1 \<Longrightarrow> adds_at_most n m2 \<Longrightarrow> adds_at_most n (if b then m1 else m2)"
  by simp

lemma adds_basic [intro]:
  "adds_at_most n (liftE r)" "adds_at_most n (throwE e)" "adds_at_most n (returnE a)"
  "adds_at_most n (assign_trait k)" "adds_at_most 1 (countly_invoke sdk c)"
  by (auto simp: adds_at_most_def assign_trait_def countly_invoke_def)

lemma adds_trait_loop [intro]: "adds_at_most 0 (trait_loop traits ks u)"
proof (induction ks arbitrary: u)
  case Nil
  then show ?case by (simp only: trait_loop.simps) (rule adds_basic)
next
  case (Cons k ks)
  have "adds_at_most (0 + 0) (trait_loop traits (k # ks) u)"
    unfolding trait_loop.simps by (intro adds_bindE adds_basic Cons.IH)
  then show ?case by simp
qed

lemma adds_plugin_call: "adds_at_most (hook_budget h) (plugin_call sdk h)"
proof (cases h)
  case (HIdentify arg)
  have "adds_at_most (0 + (0 + (1 + (0 + 1)))) (identify sdk arg)"
    unfolding identify_def Let_def by (intro adds_bindE adds_if adds_basic adds_trait_loop)
  with HIdentify show ?thesis by (simp add: numeral_2_eq_2)
next
  case (HInitialize arg)
  have "adds_at_most (0 + (0 + 1)) (initialize sdk arg)"
    unfolding initialize_def Let_def by (intro adds_bindE adds_if adds_basic)
  with HInitialize show ?thesis by simp
next
  case (HPage arg)
  have "adds_at_most (0 + (0 + (0 + 1))) (page sdk arg)"
    unfolding page_def by (intro adds_bindE adds_basic)
  with HPage show ?thesis by simp
next
  case (HTrack arg)
  have "adds_at_most (0 + 1) (track sdk arg)"
    unfolding track_def by (intro adds_bindE adds_basic)
  with HTrack show ?thesis by simp
next
  case HEnableErrorTracking
  then show ?thesis using adds_basic(5) [of sdk Track_errors] by (simp add: enableErrorTracking_def)
next
  case HEnableSessionTracking
  then show ?thesis using adds_basic(5) [of sdk Track_sessions] by (simp add: enableSessionTracking_def)
next
  case (HReportTrace p)
  have "adds_at_most (0 + 1) (reportTrace sdk p)"
    unfolding reportTrace_def by (intro adds_bindE adds_basic)
  with HReportTrace show ?thesis by simp
qed

subsection \<open>SDK exceptions\<close>

lemma upstream_msg_Inl [simp]:
  "upstream_msg (Inl e) = (case e of Upstream m \<Rightarrow> Some m | _ \<Rightarrow> None)"
  by (cases e) simp_all

lemma calls_fit_quiet: "calls_fit sdk None new \<Longrightarrow> \<forall>c \<in> set new. sdk c = None"
  by (cases new rule: rev_cases) (auto simp: calls_fit_def)

lemma calls_fit_append:
  assumes "\<forall>c \<in> set new1. sdk c = None" "calls_fit sdk u new2"
  shows "calls_fit sdk u (new1 @ new2)"
proof (cases "new2 = []")
  case True
  with assms show ?thesis
    by (cases new1 rule: rev_cases) (auto simp: calls_fit_def split: option.splits)
next
  case False
  with assms show ?thesis by (auto simp: calls_fit_def butlast_append split: option.splits)
qed

lemma exact_bindE [intro]:
  assumes m: "sdk_errors_exact sdk m" and f: "\<And>x. sdk_errors_exact sdk (f x)"
  shows "sdk_errors_exact sdk (bindE m f)"
  unfolding sdk_errors_exact_def
proof (intro allI impI)
  fix st r st'
  assume run: "bindE m f st = (r, st')"
  obtain r1 s1 where m1: "m st = (r1, s1)" by fastforce
  with m obtain new1 where n1: "sdk_calls s1 = sdk_calls st @ new1" "calls_fit sdk (upstream_msg r1) new1"
    unfolding sdk_errors_exact_def by blast
  show "\<exists>new. sdk_calls st' = sdk_calls st @ new \<and> calls_fit sdk (upstream_msg r) new"
  proof (cases r1)
    case (Inl e)
    with run m1 have "r = Inl e" "st' = s1" by simp_all
    with Inl n1 show ?thesis by (intro exI [of _ new1]) simp
  next
    case (Inr a)
    with run m1 have f1: "f a s1 = (r, st')" by simp
    with f obtain new2 where n2: "sdk_calls st' = sdk_calls s1 @ new2" "calls_fit sdk (upstream_msg r) new2"
      unfolding sdk_errors_exact_def by blast
    from Inr n1(2) have "\<forall>c \<in> set new1. sdk c = None" by (simp add: calls_fit_quiet)
    with n1(1) n2 show ?thesis by (intro exI [of _ "new1 @ new2"]) (simp add: calls_fit_append)
  qed
qed

lemma exact_if [intro]:
  "sdk_errors_exact sdk m1 \<Longrightarrow> sdk_errors_exact sdk m2 \<Longrightarrow> sdk_errors_exact sdk (if b then m1 else m2)"
  by simp

lemma exact_basic [intro]:
  "sdk_errors_exact sdk (liftE (require_coercible v))" "sdk_errors_exact sdk (throwE (Error s))"
  "sdk_errors_exact sdk (returnE a)" "sdk_errors_exact sdk (assign_trait k)"
  "sdk_errors_exact sdk (countly_invoke sdk c)"
  by (auto simp: sdk_errors_exact_def calls_fit_def require_coercible_def assign_trait_def
                 countly_invoke_def split: if_splits option.splits)

lemma exact_trait_loop [intro]: "sdk_errors_exact sdk (trait_loop traits ks u)"
  by (induction ks arbitrary: u) (auto simp only: trait_loop.simps)

lemma exact_plugin_call: "sdk_errors_exact sdk (plugin_call sdk h)"
  by (cases h)
     (simp_all add: initialize_def page_def track_def identify_def enableErrorTracking_def
        enableSessionTracking_def reportTrace_def Let_def,
      (intro exact_bindE exact_if exact_basic exact_trait_loop)+)

subsection \<open>Hooks while \<open>Countly\<close> is unbound\<close>

lemma unbound_fails_bindE_right:
  "preserves extends m \<Longrightarrow> (\<And>x. unbound_fails (f x)) \<Longrightarrow> unbound_fails (bindE m f)"
  unfolding unbound_fails_def bindE_def preserves_def extends_def
  by (fastforce split: prod.splits sum.splits)

lemma unbound_fails_basic:
  "unbound_fails (throwE e)" "unbound_fails (countly_invoke sdk c)"
  by (simp_all add: unbound_fails_def countly_invoke_def)

lemma unbound_fails_if:
  "unbound_fails m1 \<Longrightarrow> unbound_fails m2 \<Longrightarrow> unbound_fails (if b then m1 else m2)"
  by simp

lemma preserves_extends_trait_loop: "preserves extends (trait_loop traits ks u)"
  using preserves_trait_loop same_but_trait_extends by (fastforce simp: preserves_def)

lemmas unbound_fails_intros =
  unbound_fails_bindE_right unbound_fails_if unbound_fails_basic
  preserves_liftE preserves_returnE preserves_if preserves_bindE preserves_countly_invoke
  preserves_extends_trait_loop reflp_extends transp_extends

lemma unbound_fails_plugin_call: "unbound_fails (plugin_call sdk h)"
  by (cases h)
     (simp_all add: initialize_def page_def track_def identify_def enableErrorTracking_def
        enableSessionTracking_def reportTrace_def Let_def,
      (intro unbound_fails_intros)+)

subsection \<open>Runs of hooks\<close>

lemma snd_run_hooks_Cons [simp]:
  "snd (run_hooks sdk (h # hs) st) = snd (run_hooks sdk hs (snd (plugin_call sdk h st)))"
  by (simp split: prod.split)

lemma reachable_step_ok_calls:
  "reachable sdk st0 st \<Longrightarrow> \<exists>cs. sdk_calls st = sdk_calls st0 @ cs \<and> (\<forall>c \<in> set cs. call_configured c)"
  using reachable_step_ok [of sdk st0 st] by (auto simp: step_ok_def extends_def)

section \<open>Properties\<close>

text \<open>
  C8: after loading, every \<open>Countly.init\<close>
  call the adapter ever makes carries a truthy \<open>app_key\<close> and a truthy
  \<open>server_url\<close>, for every SDK and every order of hooks.
\<close>

theorem reachable_calls_configured:
  assumes "load_module p strict t0 = Inr st0" "reachable sdk st0 st" "Init cfg \<in> set (sdk_calls st)"
  shows "truthy (get_prop cfg ''app_key'') \<and> truthy (get_prop cfg ''server_url'')"
proof -
  from assms(1) have "sdk_calls st0 = []"
    by (auto simp: load_module_def split: option.splits sum.splits)
  with reachable_step_ok_calls [OF assms(2)] assms(3) show ?thesis by fastforce
qed

theorem reachable_calls_configured_witness:
  "load_module (Some (JObj [])) True None
     = Inr \<lparr>countly_bound = True, strict_code = True, global_trait = None, sdk_calls = []\<rparr>
   \<and> reachable (\<lambda>_. None) \<lparr>countly_bound = True, strict_code = True, global_trait = None, sdk_calls = []\<rparr>
       \<lparr>countly_bound = True, strict_code = True, global_trait = None,
        sdk_calls = [Init (JObj [(''app_key'', JStr ''k''), (''server_url'', JStr ''u''), (''debug'', JBool False)])]\<rparr>
   \<and> truthy (get_prop (JObj [(''app_key'', JStr ''k''), (''server_url'', JStr ''u''), (''debug'', JBool False)]) ''app_key'')
   \<and> truthy (get_prop (JObj [(''app_key'', JStr ''k''), (''server_url'', JStr ''u''), (''debug'', JBool False)]) ''server_url'')"
proof -
  have l: "load_module (Some (JObj [])) True None
     = Inr \<lparr>countly_bound = True, strict_code = True, global_trait = None, sdk_calls = []\<rparr>"
    by (simp add: load_module_def require_coercible_def inherited_object_def object_proto_methods_def)
  have u: "inherited_object ''debug'' = JUndef"
    by (simp add: inherited_object_def object_proto_methods_def)
  have "plugin_call (\<lambda>_. None) (HInitialize (JObj [(''config'', JObj [(''app_key'', JStr ''k''), (''server_url'', JStr ''u'')])]))
          \<lparr>countly_bound = True, strict_code = True, global_trait = None, sdk_calls = []\<rparr>
        = (Inr (), \<lparr>countly_bound = True, strict_code = True, global_trait = None,
             sdk_calls = [Init (JObj [(''app_key'', JStr ''k''), (''server_url'', JStr ''u''), (''debug'', JBool False)])]\<rparr>)"
    by (simp add: initialize_def u js_or_def)
  then have r: "reachable (\<lambda>_. None) \<lparr>countly_bound = True, strict_code = True, global_trait = None, sdk_calls = []\<rparr>
       \<lparr>countly_bound = True, strict_code = True, global_trait = None,
        sdk_calls = [Init (JObj [(''app_key'', JStr ''k''), (''server_url'', JStr ''u''), (''debug'', JBool False)])]\<rparr>"
    by (rule reachable.step [OF reachable.start])
  show ?thesis using l r reachable_calls_configured [OF l r] by simp
qed

text \<open>
  C11: when \<open>process.browser\<close> is truthy at load
  time, no hook ever reaches the SDK: the trace stays empty.
\<close>

theorem browser_never_calls_sdk:
  assumes "load_module (Some p) strict t0 = Inr st0" "truthy (get_prop p ''browser'')"
    and "reachable sdk st0 st"
  shows "sdk_calls st = []"
proof -
  from assms(1,2) have "\<not> countly_bound st0" "sdk_calls st0 = []"
    by (auto simp: load_module_def require_coercible_def split: if_splits)
  with reachable_step_ok [OF assms(3)] show ?thesis by (simp add: step_ok_def)
qed

theorem browser_never_calls_sdk_witness:
  "load_module (Some (JObj [(''browser'', JBool True)])) True None
     = Inr \<lparr>countly_bound = False, strict_code = True, global_trait = None, sdk_calls = []\<rparr>
   \<and> truthy (get_prop (JObj [(''browser'', JBool True)]) ''browser'')
   \<and> reachable (\<lambda>_. None) \<lparr>countly_bound = False, strict_code = True, global_trait = None, sdk_calls = []\<rparr>
       \<lparr>countly_bound = False, strict_code = True, global_trait = None, sdk_calls = []\<rparr>
   \<and> sdk_calls \<lparr>countly_bound = False, strict_code = True, global_trait = None, sdk_calls = []\<rparr> = []"
proof -
  have l: "load_module (Some (JObj [(''browser'', JBool True)])) True None
     = Inr \<lparr>countly_bound = False, strict_code = True, global_trait = None, sdk_calls = []\<rparr>"
    by (simp add: load_module_def require_coercible_def)
  have "plugin_call (\<lambda>_. None) HEnableSessionTracking
          \<lparr>countly_bound = False, strict_code = True, global_trait = None, sdk_calls = []\<rparr>
        = (Inl TypeError, \<lparr>countly_bound = False, strict_code = True, global_trait = None, sdk_calls = []\<rparr>)"
    by (simp add: enableSessionTracking_def)
  then have r: "reachable (\<lambda>_. None) \<lparr>countly_bound = False, strict_code = True, global_trait = None, sdk_calls = []\<rparr>
       \<lparr>countly_bound = False, strict_code = True, global_trait = None, sdk_calls = []\<rparr>"
    by (rule reachable.step [OF reachable.start])
  show ?thesis using l r browser_never_calls_sdk [OF l _ r] by simp
qed

text \<open>
  C20: one hook makes at most two SDK calls when it is
  \<open>identify\<close> (\<open>change_id\<close>, \<open>user_details\<close>) and at most one otherwise,
  on every path, the error paths included.
\<close>

theorem plugin_call_budget:
  "plugin_call sdk h st = (r, st') \<Longrightarrow> length (sdk_calls st') \<le> length (sdk_calls st) + hook_budget h"
  using adds_plugin_call [of h sdk] by (simp add: adds_at_most_def)

theorem plugin_call_budget_witness:
  "plugin_call (\<lambda>_. None) (HIdentify (JObj [(''payload'', JObj [(''userId'', JStr ''u1''), (''traits'', JNull)])]))
     \<lparr>countly_bound = True, strict_code = True, global_trait = None, sdk_calls = []\<rparr>
   = (Inr (), \<lparr>countly_bound = True, strict_code = True, global_trait = None,
               sdk_calls = [Change_id (JStr ''u1''), User_details (JObj [(''custom'', JObj [])])]\<rparr>)
   \<and> length [Change_id (JStr ''u1''), User_details (JObj [(''custom'', JObj [])])]
       \<le> length ([] :: countly_call list) + hook_budget (HIdentify (JObj [(''payload'', JObj [(''userId'', JStr ''u1''), (''traits'', JNull)])]))"
proof -
  have run: "plugin_call (\<lambda>_. None) (HIdentify (JObj [(''payload'', JObj [(''userId'', JStr ''u1''), (''traits'', JNull)])]))
     \<lparr>countly_bound = True, strict_code = True, global_trait = None, sdk_calls = []\<rparr>
   = (Inr (), \<lparr>countly_bound = True, strict_code = True, global_trait = None,
               sdk_calls = [Change_id (JStr ''u1''), User_details (JObj [(''custom'', JObj [])])]\<rparr>)"
    by (simp add: identify_def bindE_def empty_user_object_def user_object_value_def)
  show ?thesis using run plugin_call_budget [OF run] by simp
qed

text \<open>
  C13: an exception of the SDK propagates out
  of every hook unchanged and ends it, and no other outcome hides one: of the
  calls a hook makes, none but the last threw, and the last one threw exactly
  when the hook ends with the SDK's exception, carrying the SDK's message.
\<close>

theorem plugin_call_sdk_errors_exact:
  "plugin_call sdk h st = (r, st') \<Longrightarrow>
   \<exists>new. sdk_calls st' = sdk_calls st @ new
     \<and> (\<forall>c \<in> set (butlast new). sdk c = None)
     \<and> (case upstream_msg r of Some msg \<Rightarrow> new \<noteq> [] \<and> sdk (last new) = Some msg
                            | None \<Rightarrow> new = [] \<or> sdk (last new) = None)"
  using exact_plugin_call [of sdk h] unfolding sdk_errors_exact_def calls_fit_def by blast

theorem plugin_call_sdk_errors_exact_witness:
  "plugin_call (\<lambda>c. if c = Change_id (JStr ''u1'') then Some ''offline'' else None)
     (HIdentify (JObj [(''payload'', JObj [(''userId'', JStr ''u1''), (''traits'', JNull)])]))
     \<lparr>countly_bound = True, strict_code = True, global_trait = None, sdk_calls = []\<rparr>
   = (Inl (Upstream ''offline''), \<lparr>countly_bound = True, strict_code = True, global_trait = None,
                                   sdk_calls = [Change_id (JStr ''u1'')]\<rparr>)
   \<and> (\<exists>new. [Change_id (JStr ''u1'')] = [] @ new
       \<and> (\<forall>c \<in> set (butlast new). (\<lambda>c. if c = Change_id (JStr ''u1'') then Some ''offline'' else None) c = None)
       \<and> new \<noteq> [] \<and> (\<lambda>c. if c = Change_id (JStr ''u1'') then Some ''offline'' else None) (last new) = Some ''offline'')"
proof -
  have run: "plugin_call (\<lambda>c. if c = Change_id (JStr ''u1'') then Some ''offline'' else None)
     (HIdentify (JObj [(''payload'', JObj [(''userId'', JStr ''u1''), (''traits'', JNull)])]))
     \<lparr>countly_bound = True, strict_code = True, global_trait = None, sdk_calls = []\<rparr>
   = (Inl (Upstream ''offline''), \<lparr>countly_bound = True, strict_code = True, global_trait = None,
                                   sdk_calls = [Change_id (JStr ''u1'')]\<rparr>)"
    by (simp add: identify_def bindE_def Let_def)
  show ?thesis using run plugin_call_sdk_errors_exact [OF run] by simp
qed

text \<open>
  C12: while \<open>Countly\<close> is unbound (a module loaded
  with a truthy \<open>process.browser\<close>) no hook completes normally: each throws
  (a TypeError at its SDK call, or an earlier error), and no call is made.
\<close>

theorem unbound_hooks_throw:
  "\<not> countly_bound st \<Longrightarrow> plugin_call sdk h st = (r, st') \<Longrightarrow> isl r \<and> sdk_calls st' = sdk_calls st"
  using unbound_fails_plugin_call [of sdk h] step_ok_plugin_call [of sdk h]
  by (auto simp: unbound_fails_def preserves_def step_ok_def)

theorem unbound_hooks_throw_witness:
  "\<not> countly_bound \<lparr>countly_bound = False, strict_code = False, global_trait = None, sdk_calls = []\<rparr>
   \<and> plugin_call (\<lambda>_. None) (HTrack (JObj [(''eventName'', JStr ''signup'')]))
       \<lparr>countly_bound = False, strict_code = False, global_trait = None, sdk_calls = []\<rparr>
     = (Inl TypeError, \<lparr>countly_bound = False, strict_code = False, global_trait = None, sdk_calls = []\<rparr>)
   \<and> isl (Inl TypeError :: js_error + unit)"
proof -
  have run: "plugin_call (\<lambda>_. None) (HTrack (JObj [(''eventName'', JStr ''signup'')]))
       \<lparr>countly_bound = False, strict_code = False, global_trait = None, sdk_calls = []\<rparr>
     = (Inl TypeError, \<lparr>countly_bound = False, strict_code = False, global_trait = None, sdk_calls = []\<rparr>)"
    by (simp add: track_def)
  show ?thesis using run unbound_hooks_throw [OF _ run] by simp
qed

end
