(* ===== verification/Adapter_Spec.thy ===== *)
theory Adapter_Spec
  imports Dispatch
begin

text \<open>
  The adapter's contract as the specification states it (sections 4.1, 6 and
  8 of spec.md), as an abstract model: for each hook, either the configuration
  error it must raise or the sequence of vendor-client calls it must make
  (\<open>spec_call\<close>), with no other state than the trace of those calls. Events
  that lack the fields the specification's event types have are outside the
  contract (\<open>None\<close>). The code refines this model through the abstraction
  function \<open>sdk_calls\<close> on a domain \<open>spec_agrees\<close> that excludes exactly the
  inputs on which code and specification are known to differ.
\<close>

section \<open>Definitions\<close>

text \<open>
  Section 4.1: a trait whose name is one of the eight predefined fields is
  copied under that name, every other trait goes to \<open>custom\<close>; assignments of
  \<open>__proto__\<close> keep the semantics of \<open>obj_set\<close>.
\<close>

definition spec_classification :: "jsval \<Rightarrow> string list \<Rightarrow> user_object" where
  "spec_classification traits ks =
     \<lparr>uo_fields = map (\<lambda>k. (k, get_prop traits k)) (filter (\<lambda>k. k \<in> set allowedProps) ks),
      uo_custom = map (\<lambda>k. (k, get_prop traits k))
                    (filter (\<lambda>k. k \<notin> set allowedProps \<and> k \<noteq> ''__proto__'') ks)\<rparr>"

text \<open>
  Section 4.1 sends \<open>debug ?? false\<close> to the SDK: the configured value, or
  \<open>false\<close> when it is \<open>undefined\<close> or \<open>null\<close>.
\<close>

definition spec_init_debug :: "jsval \<Rightarrow> jsval" where
  "spec_init_debug d = (if d = JUndef \<or> d = JNull then JBool False else d)"

text \<open>Section 4.1: \<open>app_key\<close> and \<open>server_url\<close> must be non-empty strings.\<close>

fun spec_present :: "jsval \<Rightarrow> bool" where
  "spec_present (JStr s) = (s \<noteq> [])"
| "spec_present _ = False"

definition coercible :: "jsval \<Rightarrow> bool" where
  "coercible v \<longleftrightarrow> v \<noteq> JUndef \<and> v \<noteq> JNull"

text \<open>The prescribed outcome of each capability (table of section 6).\<close>

fun spec_call :: "hook \<Rightarrow> (string + countly_call list) option" where
  "spec_call (HInitialize arg) =
     (let config = get_prop arg ''config'' in
      if \<not> coercible arg \<or> \<not> coercible config then None
      else if \<not> spec_present (get_prop config ''app_key'') then Some (Inl ''No app_key provided'')
      else if \<not> spec_present (get_prop config ''server_url'') then Some (Inl ''No server_url provided'')
      else Some (Inr [Init (JObj [(''app_key'', get_prop config ''app_key''),
                                  (''server_url'', get_prop config ''server_url''),
                                  (''debug'', spec_init_debug (get_prop config ''debug''))])]))"
| "spec_call (HPage arg) =
     (let payload = get_prop arg ''payload''; props = get_prop payload ''properties'' in
      if coercible arg \<and> coercible payload \<and> coercible props
      then Some (Inr [Track_view (get_prop props ''path'')]) else None)"
| "spec_call (HTrack arg) =
     (if coercible arg
      then Some (Inr [Add_event (JObj [(''key'', get_prop arg ''eventName''), (''count'', JNum 1),
                                       (''segmentation'', get_prop arg ''payload'')])])
      else None)"
| "spec_call (HIdentify arg) =
     (let payload = get_prop arg ''payload''; userId = get_prop payload ''userId'';
          traits = get_prop payload ''traits'' in
      if coercible arg \<and> coercible payload
      then Some (Inr ((if is_string userId then [Change_id userId] else [])
                      @ [User_details (user_object_value (spec_classification traits
                                         (if truthy traits then for_in_keys traits else [])))]))
      else None)"
| "spec_call HEnableErrorTracking = Some (Inr [Track_errors])"
| "spec_call HEnableSessionTracking = Some (Inr [Track_sessions])"
| "spec_call (HReportTrace p) =
     (if coercible p
      then Some (Inr [Report_trace (JObj [(''type'', get_prop p ''type''), (''name'', get_prop p ''name''),
                                          (''stz'', get_prop p ''stz''), (''etz'', get_prop p ''etz''),
                                          (''app_metrics'', get_prop p ''app_metrics'')])])
      else None)"

definition spec_outcome :: "string + countly_call list \<Rightarrow> js_error + unit" where
  "spec_outcome res = (case res of Inl msg \<Rightarrow> Inl (Error msg) | Inr _ \<Rightarrow> Inr ())"

definition spec_trace :: "string + countly_call list \<Rightarrow> countly_call list" where
  "spec_trace res = (case res of Inl _ \<Rightarrow> [] | Inr cs \<Rightarrow> cs)"

text \<open>
  The inputs on which the code is meant to meet the contract: configuration
  keys that are strings or falsy, a \<open>debug\<close> that \<open>||\<close> and \<open>??\<close> treat alike,
  and traits whose names neither are predefined fields nor are found by
  \<open>allowedProps[name]\<close>, in a state where the loop variable can be assigned.
\<close>

fun spec_agrees :: "hook \<Rightarrow> rt \<Rightarrow> bool" where
  "spec_agrees (HInitialize arg) st =
     (let config = get_prop arg ''config''; d = get_prop config ''debug'' in
      truthy (get_prop config ''app_key'') = spec_present (get_prop config ''app_key'')
      \<and> truthy (get_prop config ''server_url'') = spec_present (get_prop config ''server_url'')
      \<and> (truthy d \<or> d = JUndef \<or> d = JNull \<or> d = JBool False))"
| "spec_agrees (HIdentify arg) st =
     (let traits = get_prop (get_prop arg ''payload'') ''traits'';
          ks = (if truthy traits then for_in_keys traits else []) in
      wf_keys traits
      \<and> list_all (\<lambda>k. k \<notin> set allowedProps \<and> \<not> truthy (allowed_lookup k)) ks
      \<and> (ks = [] \<or> \<not> strict_code st \<or> global_trait st \<noteq> None))"
| "spec_agrees _ st = True"

text \<open>\<open>identify\<close> is the only hook that makes more than one SDK call.\<close>

fun is_identify :: "hook \<Rightarrow> bool" where
  "is_identify (HIdentify _) = True"
| "is_identify _ = False"

section \<open>Lemmas\<close>

lemma classification_eq_spec:
  "\<forall>k \<in> set ks. k \<notin> set allowedProps \<and> \<not> truthy (allowed_lookup k) \<Longrightarrow>
   classification traits ks = spec_classification traits ks"
proof -
  assume names: "\<forall>k \<in> set ks. k \<notin> set allowedProps \<and> \<not> truthy (allowed_lookup k)"
  then have "filter (\<lambda>k. truthy (allowed_lookup k)) ks = []"
    and "filter (\<lambda>k. k \<in> set allowedProps) ks = []"
    by (simp_all add: filter_empty_conv)
  moreover have "filter (\<lambda>k. \<not> truthy (allowed_lookup k) \<and> k \<noteq> ''__proto__'') ks
               = filter (\<lambda>k. k \<notin> set allowedProps \<and> k \<noteq> ''__proto__'') ks"
    using names by (intro filter_cong) auto
  ultimately show ?thesis by (simp add: classification_def spec_classification_def)
qed

lemma js_or_spec_init_debug:
  "truthy d \<or> d = JUndef \<or> d = JNull \<or> d = JBool False \<Longrightarrow> js_or d (JBool False) = spec_init_debug d"
  by (cases d) (auto simp: js_or_def spec_init_debug_def)

lemma coercible_require [simp]: "coercible v \<Longrightarrow> require_coercible v = Inr v"
  by (simp add: coercible_def)

lemma not_coercible_require [simp]: "\<not> coercible v \<Longrightarrow> require_coercible v = Inl TypeError"
  by (auto simp: coercible_def)

lemma spec_agrees_step:
  "spec_agrees h st \<Longrightarrow> step_ok st st' \<Longrightarrow> spec_agrees h st'"
  by (cases h) (auto simp: step_ok_def extends_def Let_def)

text \<open>The per-hook simulation, for every hook in the contract's domain.\<close>

lemma plugin_call_spec:
  assumes bound: "countly_bound st" and quiet: "\<forall>c. sdk c = None"
    and agrees: "spec_agrees h st" and spec: "spec_call h = Some res"
  shows "fst (plugin_call sdk h st) = spec_outcome res
         \<and> sdk_calls (snd (plugin_call sdk h st)) = sdk_calls st @ spec_trace res"
proof (cases h)
  case (HInitialize arg)
  let ?c = "get_prop arg ''config''"
  from spec HInitialize have co: "coercible arg" "coercible ?c"
    by (auto simp: Let_def split: if_splits)
  have dbg: "js_or (get_prop ?c ''debug'') (JBool False) = spec_init_debug (get_prop ?c ''debug'')"
    using agrees HInitialize by (intro js_or_spec_init_debug) (simp add: Let_def)
  show ?thesis
    using HInitialize spec agrees co bound quiet dbg
    by (auto simp: initialize_unfold [OF _ _ refl] coercible_def Let_def spec_outcome_def spec_trace_def
             split: if_splits)
next
  case (HIdentify arg)
  let ?p = "get_prop arg ''payload''"
  let ?traits = "get_prop ?p ''traits''"
  from spec HIdentify have co: "coercible arg" "coercible ?p"
    by (auto simp: Let_def split: if_splits)
  have ks: "(if truthy ?traits then for_in_keys ?traits else []) = for_in_keys ?traits"
    by (simp add: for_in_keys_falsy)
  from agrees HIdentify have a: "wf_keys ?traits
      \<and> list_all (\<lambda>k. k \<notin> set allowedProps \<and> \<not> truthy (allowed_lookup k)) (for_in_keys ?traits)
      \<and> (for_in_keys ?traits = [] \<or> \<not> strict_code st \<or> global_trait st \<noteq> None)"
    by (simp only: spec_agrees.simps Let_def ks)
  then have wf: "wf_keys ?traits"
    and names: "\<forall>k \<in> set (for_in_keys ?traits). k \<notin> set allowedProps \<and> \<not> truthy (allowed_lookup k)"
    and mode: "for_in_keys ?traits = [] \<or> \<not> strict_code st \<or> global_trait st \<noteq> None"
    by (simp_all add: list_all_iff)
  let ?calls = "(if is_string (get_prop ?p ''userId'') then [Change_id (get_prop ?p ''userId'')] else [])
                @ [User_details (user_object_value (spec_classification ?traits (for_in_keys ?traits)))]"
  have i1: "fst (identify sdk arg st) = Inr ()"
    and i2: "sdk_calls (snd (identify sdk arg st)) = sdk_calls st
           @ (if is_string (get_prop ?p ''userId'') then [Change_id (get_prop ?p ''userId'')] else [])
           @ [User_details (user_object_value (classification ?traits (for_in_keys ?traits)))]"
    using identify_ok [OF bound quiet _ _ refl _ _ wf mode] co by (simp_all add: coercible_def)
  from spec HIdentify co have r: "res = Inr ?calls"
    by (auto simp: Let_def ks)
  show ?thesis
    using HIdentify i1 i2 by (simp add: r classification_eq_spec [OF names] spec_outcome_def spec_trace_def)
next
  case (HPage arg)
  with spec bound quiet show ?thesis
    by (auto simp: page_def Let_def spec_outcome_def spec_trace_def split: if_splits)
next
  case (HTrack arg)
  with spec bound quiet show ?thesis
    by (auto simp: track_def spec_outcome_def spec_trace_def split: if_splits)
next
  case HEnableErrorTracking
  with spec bound quiet show ?thesis
    by (auto simp: enableErrorTracking_def spec_outcome_def spec_trace_def)
next
  case HEnableSessionTracking
  with spec bound quiet show ?thesis
    by (auto simp: enableSessionTracking_def spec_outcome_def spec_trace_def)
next
  case (HReportTrace p)
  with spec bound quiet show ?thesis
    by (auto simp: reportTrace_def spec_outcome_def spec_trace_def split: if_splits)
qed

text \<open>
  The trace of every hook other than \<open>identify\<close> on the contract's domain,
  for every SDK behaviour: a call that throws is still made.
\<close>

lemma plugin_call_spec_trace:
  assumes bound: "countly_bound st" and one: "\<not> is_identify h"
    and agrees: "spec_agrees h st" and spec: "spec_call h = Some res"
  shows "sdk_calls (snd (plugin_call sdk h st)) = sdk_calls st @ spec_trace res"
proof (cases h)
  case (HInitialize arg)
  let ?c = "get_prop arg ''config''"
  from spec HInitialize have co: "coercible arg" "coercible ?c"
    by (auto simp: Let_def split: if_splits)
  have dbg: "js_or (get_prop ?c ''debug'') (JBool False) = spec_init_debug (get_prop ?c ''debug'')"
    using agrees HInitialize by (intro js_or_spec_init_debug) (simp add: Let_def)
  show ?thesis
    using HInitialize spec agrees co bound dbg
    by (auto simp: initialize_unfold [OF _ _ refl] coercible_def Let_def spec_trace_def countly_invoke_def
             split: if_splits)
qed (use spec bound one in \<open>auto simp: page_def track_def enableErrorTracking_def enableSessionTracking_def
       reportTrace_def Let_def spec_trace_def countly_invoke_def split: if_splits\<close>)

text \<open>Lifting a per-hook trace to a run, over the states a run can reach.\<close>

lemma run_hooks_trace:
  assumes "\<And>h s. h \<in> set hs \<Longrightarrow> step_ok st s \<Longrightarrow>
             sdk_calls (snd (plugin_call sdk h s)) = sdk_calls s @ f h"
  shows "sdk_calls (snd (run_hooks sdk hs st)) = sdk_calls st @ concat (map f hs)"
  using assms
proof (induction hs arbitrary: st)
  case Nil
  then show ?case by simp
next
  case (Cons h hs)
  obtain r st1 where run: "plugin_call sdk h st = (r, st1)" by fastforce
  have ok: "step_ok st st1" using step_ok_plugin_call [of sdk h] run by (simp add: preserves_def)
  have "step_ok st st" by (simp add: reflpD)
  with Cons.prems [of h st] run have h1: "sdk_calls st1 = sdk_calls st @ f h" by simp
  have "sdk_calls (snd (run_hooks sdk hs st1)) = sdk_calls st1 @ concat (map f hs)"
    using Cons.prems ok by (intro Cons.IH) (auto dest: transpD [OF transp_step_ok])
  with run h1 show ?case by (simp del: run_hooks.simps(2))
qed

section \<open>Properties\<close>

text \<open>
  C9: on the contract's domain, with the SDK
  loaded and not throwing, every hook has exactly the outcome the
  specification prescribes (its configuration error, or normal completion)
  and appends exactly the prescribed vendor calls to the trace.
\<close>

theorem plugin_call_refines_spec:
  assumes "countly_bound st" "\<forall>c. sdk c = None" "spec_agrees h st" "spec_call h = Some res"
  shows "fst (plugin_call sdk h st) = spec_outcome res
         \<and> sdk_calls (snd (plugin_call sdk h st)) = sdk_calls st @ spec_trace res"
  using plugin_call_spec [OF assms] .

theorem plugin_call_refines_spec_witness:
  "countly_bound \<lparr>countly_bound = True, strict_code = True, global_trait = None, sdk_calls = []\<rparr>
   \<and> (\<forall>c. (\<lambda>_. None) c = (None :: string option))
   \<and> spec_agrees (HTrack (JObj [(''eventName'', JStr ''signup''), (''payload'', JObj [(''plan'', JStr ''pro'')])]))
       \<lparr>countly_bound = True, strict_code = True, global_trait = None, sdk_calls = []\<rparr>
   \<and> spec_call (HTrack (JObj [(''eventName'', JStr ''signup''), (''payload'', JObj [(''plan'', JStr ''pro'')])]))
     = Some (Inr [Add_event (JObj [(''key'', JStr ''signup''), (''count'', JNum 1),
                                   (''segmentation'', JObj [(''plan'', JStr ''pro'')])])])
   \<and> fst (plugin_call (\<lambda>_. None) (HTrack (JObj [(''eventName'', JStr ''signup''), (''payload'', JObj [(''plan'', JStr ''pro'')])]))
         \<lparr>countly_bound = True, strict_code = True, global_trait = None, sdk_calls = []\<rparr>) = Inr ()
   \<and> sdk_calls (snd (plugin_call (\<lambda>_. None)
         (HTrack (JObj [(''eventName'', JStr ''signup''), (''payload'', JObj [(''plan'', JStr ''pro'')])]))
         \<lparr>countly_bound = True, strict_code = True, global_trait = None, sdk_calls = []\<rparr>))
     = [Add_event (JObj [(''key'', JStr ''signup''), (''count'', JNum 1), (''segmentation'', JObj [(''plan'', JStr ''pro'')])])]"
proof -
  have s: "spec_call (HTrack (JObj [(''eventName'', JStr ''signup''), (''payload'', JObj [(''plan'', JStr ''pro'')])]))
     = Some (Inr [Add_event (JObj [(''key'', JStr ''signup''), (''count'', JNum 1),
                                   (''segmentation'', JObj [(''plan'', JStr ''pro'')])])])"
    by (simp add: coercible_def)
  show ?thesis
    using s plugin_call_refines_spec [OF _ _ _ s,
        of "\<lparr>countly_bound = True, strict_code = True, global_trait = None, sdk_calls = []\<rparr>" "\<lambda>_. None"]
    by (simp add: spec_outcome_def spec_trace_def)
qed

text \<open>
  C10: a run of hooks that all lie in the
  contract's domain, from a state with the SDK loaded and not throwing,
  yields the prescribed outcomes in order, and its trace is exactly the
  concatenation of the calls the specification prescribes for each hook.
\<close>

theorem run_hooks_refines_spec:
  assumes "countly_bound st" "\<forall>c. sdk c = None" "\<forall>h \<in> set hs. spec_call h \<noteq> None \<and> spec_agrees h st"
  shows "fst (run_hooks sdk hs st) = map (\<lambda>h. spec_outcome (the (spec_call h))) hs
         \<and> sdk_calls (snd (run_hooks sdk hs st)) = sdk_calls st @ concat (map (\<lambda>h. spec_trace (the (spec_call h))) hs)"
  using assms
proof (induction hs arbitrary: st)
  case Nil
  then show ?case by simp
next
  case (Cons h hs)
  obtain res where res: "spec_call h = Some res" using Cons.prems(3) by auto
  obtain r st1 where run: "plugin_call sdk h st = (r, st1)" by fastforce
  have ok: "step_ok st st1" using step_ok_plugin_call [of sdk h] run by (simp add: preserves_def)
  have step: "r = spec_outcome res" "sdk_calls st1 = sdk_calls st @ spec_trace res"
    using plugin_call_spec [OF Cons.prems(1,2) _ res] Cons.prems(3) run by simp_all
  have "countly_bound st1" using ok Cons.prems(1) by (simp add: step_ok_def extends_def)
  moreover have "\<forall>h \<in> set hs. spec_call h \<noteq> None \<and> spec_agrees h st1"
    using Cons.prems(3) spec_agrees_step ok by auto
  ultimately have IH: "fst (run_hooks sdk hs st1) = map (\<lambda>h. spec_outcome (the (spec_call h))) hs"
      "sdk_calls (snd (run_hooks sdk hs st1)) = sdk_calls st1 @ concat (map (\<lambda>h. spec_trace (the (spec_call h))) hs)"
    using Cons.IH [OF _ Cons.prems(2)] by simp_all
  obtain rs st2 where run2: "run_hooks sdk hs st1 = (rs, st2)" by fastforce
  show ?case using run run2 step IH res by simp
qed

theorem run_hooks_refines_spec_witness:
  "countly_bound \<lparr>countly_bound = True, strict_code = True, global_trait = None, sdk_calls = []\<rparr>
   \<and> (\<forall>c. (\<lambda>_. None) c = (None :: string option))
   \<and> spec_call (HInitialize (JObj [(''config'', JObj [(''app_key'', JStr ''k''), (''server_url'', JStr ''u'')])])) \<noteq> None
   \<and> spec_agrees (HInitialize (JObj [(''config'', JObj [(''app_key'', JStr ''k''), (''server_url'', JStr ''u'')])]))
       \<lparr>countly_bound = True, strict_code = True, global_trait = None, sdk_calls = []\<rparr>
   \<and> spec_call HEnableSessionTracking \<noteq> None
   \<and> spec_agrees HEnableSessionTracking \<lparr>countly_bound = True, strict_code = True, global_trait = None, sdk_calls = []\<rparr>
   \<and> sdk_calls (snd (run_hooks (\<lambda>_. None)
        [HInitialize (JObj [(''config'', JObj [(''app_key'', JStr ''k''), (''server_url'', JStr ''u'')])]),
         HEnableSessionTracking]
        \<lparr>countly_bound = True, strict_code = True, global_trait = None, sdk_calls = []\<rparr>))
     = [Init (JObj [(''app_key'', JStr ''k''), (''server_url'', JStr ''u''), (''debug'', JBool False)]), Track_sessions]"
proof -
  have u: "inherited_object ''debug'' = JUndef"
    by (simp add: inherited_object_def object_proto_methods_def)
  have h: "\<forall>h \<in> set [HInitialize (JObj [(''config'', JObj [(''app_key'', JStr ''k''), (''server_url'', JStr ''u'')])]),
                    HEnableSessionTracking].
             spec_call h \<noteq> None \<and> spec_agrees h \<lparr>countly_bound = True, strict_code = True, global_trait = None, sdk_calls = []\<rparr>"
    by (simp add: coercible_def u Let_def)
  show ?thesis
    using h run_hooks_refines_spec [OF _ _ h, of "\<lambda>_. None"]
    by (simp add: u coercible_def Let_def spec_trace_def spec_init_debug_def)
qed

text \<open>
  C23: an event outside the contract (an
  argument, configuration, payload or \<open>properties\<close> that is \<open>undefined\<close> or
  \<open>null\<close>, which the specification's event types do not allow) makes the
  hook throw a TypeError from the destructuring, before any SDK call and
  with the state unchanged.
\<close>

theorem out_of_contract_type_error:
  "spec_call h = None \<Longrightarrow> plugin_call sdk h st = (Inl TypeError, st)"
  by (cases h)
     (auto simp: initialize_def page_def track_def identify_def reportTrace_def Let_def
                 require_coercible_def coercible_def split: if_splits)

theorem out_of_contract_type_error_witness:
  "spec_call (HIdentify (JObj [(''payload'', JNull)])) = None
   \<and> plugin_call (\<lambda>_. None) (HIdentify (JObj [(''payload'', JNull)]))
       \<lparr>countly_bound = True, strict_code = False, global_trait = None, sdk_calls = []\<rparr>
     = (Inl TypeError, \<lparr>countly_bound = True, strict_code = False, global_trait = None, sdk_calls = []\<rparr>)"
proof -
  have n: "spec_call (HIdentify (JObj [(''payload'', JNull)])) = None" by (simp add: coercible_def)
  show ?thesis using n out_of_contract_type_error [OF n] by simp
qed

text \<open>
  C24: whatever the SDK does, also when
  it throws on every call, a run of hooks other than \<open>identify\<close> on the
  contract's domain makes exactly the prescribed calls: an earlier SDK
  exception never keeps a later event from reaching the SDK.
\<close>

theorem sdk_failures_do_not_suppress_calls:
  assumes "countly_bound st" "\<forall>h \<in> set hs. \<not> is_identify h \<and> spec_call h \<noteq> None \<and> spec_agrees h st"
  shows "sdk_calls (snd (run_hooks sdk hs st)) = sdk_calls st @ concat (map (\<lambda>h. spec_trace (the (spec_call h))) hs)"
proof (rule run_hooks_trace)
  fix h s
  assume h: "h \<in> set hs" and ok: "step_ok st s"
  with assms obtain res where res: "spec_call h = Some res" by auto
  have "countly_bound s" using ok assms(1) by (simp add: step_ok_def extends_def)
  moreover have "spec_agrees h s" using assms(2) h ok spec_agrees_step by blast
  ultimately show "sdk_calls (snd (plugin_call sdk h s)) = sdk_calls s @ spec_trace (the (spec_call h))"
    using plugin_call_spec_trace [of s h res sdk] assms(2) h res by simp
qed

theorem sdk_failures_do_not_suppress_calls_witness:
  "countly_bound \<lparr>countly_bound = True, strict_code = True, global_trait = None, sdk_calls = []\<rparr>
   \<and> \<not> is_identify HEnableErrorTracking \<and> spec_call HEnableErrorTracking \<noteq> None
   \<and> spec_agrees HEnableErrorTracking \<lparr>countly_bound = True, strict_code = True, global_trait = None, sdk_calls = []\<rparr>
   \<and> \<not> is_identify HEnableSessionTracking \<and> spec_call HEnableSessionTracking \<noteq> None
   \<and> spec_agrees HEnableSessionTracking \<lparr>countly_bound = True, strict_code = True, global_trait = None, sdk_calls = []\<rparr>
   \<and> run_hooks (\<lambda>_. Some ''offline'') [HEnableErrorTracking, HEnableSessionTracking]
       \<lparr>countly_bound = True, strict_code = True, global_trait = None, sdk_calls = []\<rparr>
     = ([Inl (Upstream ''offline''), Inl (Upstream ''offline'')],
        \<lparr>countly_bound = True, strict_code = True, global_trait = None, sdk_calls = [Track_errors, Track_sessions]\<rparr>)"
proof -
  have h: "\<forall>h \<in> set [HEnableErrorTracking, HEnableSessionTracking].
        \<not> is_identify h \<and> spec_call h \<noteq> None
        \<and> spec_agrees h \<lparr>countly_bound = True, strict_code = True, global_trait = None, sdk_calls = []\<rparr>"
    by simp
  have "sdk_calls (snd (run_hooks (\<lambda>_. Some ''offline'') [HEnableErrorTracking, HEnableSessionTracking]
          \<lparr>countly_bound = True, strict_code = True, global_trait = None, sdk_calls = []\<rparr>))
        = [Track_errors, Track_sessions]"
    using sdk_failures_do_not_suppress_calls [OF _ h] by (simp add: spec_trace_def)
  then show ?thesis using h
    by (simp add: enableErrorTracking_def enableSessionTracking_def)
qed

end
