(* ===== verification/Spec2Isabelle.thy ===== *)
theory Spec2Isabelle
  imports Adapter_Spec
begin

text \<open>
  \<^bold>\<open>A verification model of the Countly plugin of the analytics library.\<close>

  The program is one module, src/packages/analytics-plugin-countly/src/node.js.
  At load time it binds \<open>Countly\<close> to the vendor SDK \<open>countly-sdk-nodejs\<close>
  unless \<open>process.browser\<close> is truthy (lines 1--4). \<open>countlyPlugin(config)\<close>
  (lines 21--103) returns a plugin object for a host dispatch framework:
  \<open>initialize\<close> checks \<open>app_key\<close> and \<open>server_url\<close> and calls
  \<open>Countly.init\<close>; \<open>page\<close>, \<open>track\<close> and the \<open>methods\<close> forward to one SDK
  call each; \<open>identify\<close> optionally changes the device id, classifies the
  traits into the SDK's predefined user fields and a \<open>custom\<close> map, and submits
  them with \<open>Countly.user_details\<close>. The adapter keeps no state of its own; the
  state it touches is the \<open>Countly\<close> binding, the global binding \<open>trait\<close>
  that its undeclared loop variable resolves to, and the sequence of SDK calls.

  \<^bold>\<open>Theories.\<close>
  \<^item> \<open>Prelude\<close>: association lists as JavaScript objects, shared lemmas
    (collection \<open>alist_facts\<close>).
  \<^item> \<open>JS_Values\<close>: the JavaScript semantics the module relies on: the value
    datatype \<open>jsval\<close>, ToBoolean (\<open>truthy\<close>, \<open>js_or\<close>), RequireObjectCoercible
    (\<open>require_coercible\<close>), property reads along the prototype chains of plain
    objects and arrays (\<open>get_prop\<close>), ToPropertyKey (\<open>js_to_string\<close>), writes
    (\<open>obj_set\<close>), for-in enumeration order (\<open>own_keys\<close>, \<open>for_in_keys\<close>), and
    the exception monad \<open>bindE\<close>/\<open>returnE\<close>/\<open>throwE\<close> over an explicit state.
  \<^item> \<open>Countly_SDK\<close>: the runtime state \<open>rt\<close> (the \<open>Countly\<close> binding, strict
    mode, the global \<open>trait\<close>, the SDK call trace), module loading
    (\<open>load_module\<close>, lines 1--4), and one SDK call (\<open>countly_invoke\<close>). The SDK is
    an uninterpreted parameter \<open>sdk :: countly_call \<Rightarrow> string option\<close>: it may
    throw on any call, and every theorem holds for every such SDK.
  \<^item> \<open>Identify\<close>: \<open>identify\<close> (lines 57--76) with the allow-list lookup
    \<open>allowedProps[trait]\<close> (\<open>allowed_lookup\<close>), the loop body
    (\<open>classify_trait\<close>), the assignment to the undeclared \<open>trait\<close>
    (\<open>assign_trait\<close>) and the loop (\<open>trait_loop\<close>); \<open>classification\<close> states
    the loop's result without the loop.
  \<^item> \<open>Plugin\<close>: \<open>countlyPlugin\<close>, \<open>initialize\<close>, \<open>page\<close>, \<open>track\<close>,
    \<open>enableErrorTracking\<close>, \<open>enableSessionTracking\<close>, \<open>reportTrace\<close>, and the
    capability set \<open>plugin_call\<close> over the datatype \<open>hook\<close>.
  \<^item> \<open>Dispatch\<close>: the host's freedom, as a step relation \<open>reachable\<close> closed
    under every hook whatever its outcome and as explicit runs \<open>run_hooks\<close> of
    hook sequences; per-step predicates (\<open>step_ok\<close>, \<open>adds_at_most\<close>,
    \<open>sdk_errors_exact\<close>, \<open>unbound_fails\<close>) proved once for the
    monad's combinators and then for every hook.
  \<^item> \<open>Adapter_Spec\<close>: the specification's contract as an abstract model:
    \<open>spec_call\<close> gives, per hook, the configuration error or the vendor calls
    that sections 4.1, 6 and 8 prescribe (with the intended trait
    classification \<open>spec_classification\<close> and \<open>debug ?? false\<close>,
    \<open>spec_init_debug\<close>); \<open>spec_agrees\<close> is the domain on which the code is
    meant to meet it. The abstraction function from the code's state is the
    SDK trace \<open>sdk_calls\<close>.
  \<^item> this theory: the properties that relate code and specification outside
    that domain.

  \<^bold>\<open>What is proved.\<close>
  \<^item> \<open>identify\<close> (theory \<open>Identify\<close>): its SDK calls in order, the loop's
    result in closed form (\<open>classification\<close>), that the predefined field names
    land in \<open>custom\<close>, that array indices, \<open>length\<close> and
    \<open>Array.prototype\<close> members are written under other names, the strict-mode
    ReferenceError after \<open>change_id\<close>, the leaked global \<open>trait\<close> in sloppy
    code, and the well-formedness of the submitted object.
  \<^item> the other handlers (theory \<open>Plugin\<close>): every branch of \<open>initialize\<close>,
    \<open>page\<close>, \<open>track\<close>, \<open>reportTrace\<close>.
  \<^item> whole runs (theory \<open>Dispatch\<close>): invariants of every reachable state
    (every \<open>init\<close> configured, no call at all in a browser load), the bound
    on the calls per hook, that SDK exceptions propagate unchanged and exactly
    (no earlier call threw, the hook ends with the exception of the last call
    exactly when that call threw), and that every hook throws while
    \<open>Countly\<close> is unbound.
  \<^item> refinement (theory \<open>Adapter_Spec\<close>): on the contract's domain every hook,
    and every finite run of hooks, has exactly the prescribed outcomes and
    trace; outside the event types every hook throws a TypeError before any
    SDK call.
  \<^item> liveness (theory \<open>Adapter_Spec\<close>): for every SDK, also one that throws
    on every call, hooks other than \<open>identify\<close> still make exactly the
    prescribed calls; an SDK exception never suppresses a later event.
  \<^item> the \<open>identify\<close> loop also satisfies a write/read round trip: each visited
    trait other than \<open>__proto__\<close> reads back from where line 68 or 71 wrote it.
  \<^item> this theory: where the code refines the specification and where it
    does not (\<open>debug\<close>, loading without \<open>process\<close>).

  \<^bold>\<open>Modelling choices.\<close> Numbers are their integral values plus NaN: the
  adapter does no arithmetic, so other numbers behave like non-zero integers.
  Strings are lists of 8-bit characters, one per UTF-16 code unit for ASCII
  text. Built-in functions are named by their \<open>name\<close> and print as in V8. The
  prototype chain is modelled for plain objects and arrays, the only objects
  whose inherited members the adapter can reach; a prototype changed through an
  assignment to \<open>__proto__\<close> is not represented (own properties are). Loops run
  over finite key lists, so every definition is total by structural recursion
  and no fuel is needed: no termination property is stated, since none would
  say anything about the code.

  \<^bold>\<open>Not modelled.\<close> The vendor SDK's behaviour beyond throwing or not
  (network, batching), and the host framework's scheduling: both are external
  to the repository; the SDK is the parameter \<open>sdk\<close> and the host is
  represented by arbitrary finite sequences of hooks (theory \<open>Dispatch\<close>).
  Of JavaScript, only what the adapter reaches is modelled: the inherited
  members of \<open>String\<close>, \<open>Number\<close> and \<open>Function\<close> prototypes are not
  listed, as none of the property names the adapter reads on such values is
  one of them (for-in over a string only yields index keys). Getters, proxies
  and objects with a replaced prototype are not represented.
\<close>

section \<open>Properties\<close>

text \<open>
  C16: for a valid configuration,
  \<open>initialize\<close> makes the \<open>init\<close> call the specification prescribes exactly
  when the configured \<open>debug\<close> is truthy, \<open>undefined\<close>, \<open>null\<close> or
  \<open>false\<close>: for \<open>0\<close>, \<open>""\<close> and \<open>NaN\<close>, \<open>debug || false\<close> sends
  \<open>false\<close> where the specification passes the value through.
\<close>

theorem initialize_debug_matches_spec_iff:
  assumes "arg \<noteq> JUndef" "arg \<noteq> JNull" "get_prop arg ''config'' = c" "c \<noteq> JUndef" "c \<noteq> JNull"
    and "truthy (get_prop c ''app_key'')" "truthy (get_prop c ''server_url'')" "countly_bound st"
  shows "initialize sdk arg st =
           countly_invoke sdk (Init (JObj [(''app_key'', get_prop c ''app_key''), (''server_url'', get_prop c ''server_url''),
                                          (''debug'', spec_init_debug (get_prop c ''debug''))])) st
         \<longleftrightarrow> truthy (get_prop c ''debug'') \<or> get_prop c ''debug'' \<in> {JUndef, JNull, JBool False}"
proof -
  have "js_or d (JBool False) = spec_init_debug d \<longleftrightarrow> truthy d \<or> d \<in> {JUndef, JNull, JBool False}" for d
    by (cases d) (simp_all add: js_or_def spec_init_debug_def)
  with assms show ?thesis by (simp add: initialize_unfold countly_invoke_eq_iff)
qed

theorem initialize_debug_matches_spec_iff_witness:
  "JObj [(''config'', JObj [(''app_key'', JStr ''k''), (''server_url'', JStr ''u''), (''debug'', JNum 0)])] \<noteq> JUndef
   \<and> JObj [(''config'', JObj [(''app_key'', JStr ''k''), (''server_url'', JStr ''u''), (''debug'', JNum 0)])] \<noteq> JNull
   \<and> JObj [(''app_key'', JStr ''k''), (''server_url'', JStr ''u''), (''debug'', JNum 0)] \<noteq> JUndef
   \<and> JObj [(''app_key'', JStr ''k''), (''server_url'', JStr ''u''), (''debug'', JNum 0)] \<noteq> JNull
   \<and> truthy (JStr ''k'') \<and> truthy (JStr ''u'')
   \<and> countly_bound \<lparr>countly_bound = True, strict_code = True, global_trait = None, sdk_calls = []\<rparr>
   \<and> initialize (\<lambda>_. None) (JObj [(''config'', JObj [(''app_key'', JStr ''k''), (''server_url'', JStr ''u''), (''debug'', JNum 0)])])
       \<lparr>countly_bound = True, strict_code = True, global_trait = None, sdk_calls = []\<rparr>
     \<noteq> countly_invoke (\<lambda>_. None) (Init (JObj [(''app_key'', JStr ''k''), (''server_url'', JStr ''u''),
                                              (''debug'', spec_init_debug (JNum 0))]))
       \<lparr>countly_bound = True, strict_code = True, global_trait = None, sdk_calls = []\<rparr>"
  using initialize_debug_matches_spec_iff
      [of "JObj [(''config'', JObj [(''app_key'', JStr ''k''), (''server_url'', JStr ''u''), (''debug'', JNum 0)])]"
          "JObj [(''app_key'', JStr ''k''), (''server_url'', JStr ''u''), (''debug'', JNum 0)]"
          "\<lparr>countly_bound = True, strict_code = True, global_trait = None, sdk_calls = []\<rparr>" "\<lambda>_. None"]
  by simp

text \<open>
  C21: loading the module succeeds exactly when a
  global \<open>process\<close> exists and is neither \<open>undefined\<close> nor \<open>null\<close>; in an
  environment without \<open>process\<close> (a browser without a bundler shim) line 2
  throws a ReferenceError at load time, which section 6 of the specification
  rules out.
\<close>

theorem load_module_succeeds_iff:
  "(\<exists>st. load_module p strict t0 = Inr st) \<longleftrightarrow> (\<exists>v. p = Some v \<and> v \<noteq> JUndef \<and> v \<noteq> JNull)"
  by (cases p) (auto simp: load_module_def require_coercible_def)

end
